theory Spec2Isabelle
  imports Complex_Main "HOL-Library.Multiset"
begin

section \<open>Data model of the monetization-plan engine\<close>

text \<open>
  The engine is the route handler \<open>POST\<close> with its three helpers \<open>aggregate\<close>,
  \<open>tactics\<close> and \<open>composeSummary\<close>. A JavaScript \<open>number\<close> that carries a measured
  quantity is modelled as an exact \<open>real\<close>: the arithmetic of the model is the arithmetic
  of the source without the rounding error and the overflow of IEEE doubles. The two
  scores of a plan section are integer literals in the source and are modelled as \<open>int\<close>.
\<close>

datatype Format = Banner | Interstitial | Rewarded | Native

datatype Platform = Android | Ios | Web

record AdUnitMetrics =
  ad_unit_id :: string
  format :: Format
  platform :: Platform
  unit_avg_ecpm :: real
  unit_fill_rate :: real
  unit_latency_ms :: real
  impressions :: real
  unit_revenue :: real

record InventoryProfile =
  app_id :: string
  app_name :: string
  sdk_version :: string
  mediation_partners :: "string list"
  metrics :: "AdUnitMetrics list"
  policy_flags :: "string list option"

datatype Goal = Maximize_revenue | Increase_fill | Balance_ux

datatype Capacity = Low | Medium | High

record BusinessConstraints =
  primary_goal :: Goal
  latency_budget_ms :: real
  developer_capacity :: Capacity

record PlanSection =
  sec_id :: string
  title :: string
  impact_score :: int
  effort_score :: int
  markdown :: string

record PlanResponse =
  account_name :: string
  summary :: string
  sections :: "PlanSection list"
  constraints :: "BusinessConstraints option"

text \<open>
  The request body as it arrives, already parsed: the cast to \<open>PlanCreateRequest\<close>
  checks nothing, so each of the three properties may be missing (\<open>None\<close>). A property
  that is present has its declared type; a body that is not JSON is outside the model.
\<close>

record PlanCreateRequest =
  req_account_name :: "string option"
  req_inventory :: "InventoryProfile list option"
  req_constraints :: "BusinessConstraints option"

section \<open>Benchmarks\<close>

record Benchmark =
  bm_avg_ecpm :: real
  bm_fill_rate :: real

fun benchmarks :: "Format \<Rightarrow> Benchmark" where
  "benchmarks Rewarded = \<lparr>bm_avg_ecpm = 9.5, bm_fill_rate = 0.82\<rparr>"
| "benchmarks Interstitial = \<lparr>bm_avg_ecpm = 6.2, bm_fill_rate = 0.90\<rparr>"
| "benchmarks Banner = \<lparr>bm_avg_ecpm = 1.2, bm_fill_rate = 0.95\<rparr>"
| "benchmarks Native = \<lparr>bm_avg_ecpm = 2.2, bm_fill_rate = 0.92\<rparr>"

section \<open>Aggregation\<close>

text \<open>The four running totals kept per format and, later, for the whole inventory.\<close>

record Totals =
  t_imps :: real
  t_revenue :: real
  sumLatency :: real
  sumFillImps :: real

record FormatAggregate =
  avg_ecpm :: real
  fill_rate :: real
  latency_ms :: real
  imps :: real
  revenue :: real
  avg_ecpm_gap :: real
  fill_rate_gap :: real

record GlobalAggregate =
  global_avg_ecpm :: real
  global_fill_rate :: real
  global_latency_ms :: real

record Aggregate =
  byFormat :: "(Format \<times> FormatAggregate) list"
  global :: GlobalAggregate

definition zero_totals :: Totals where
  "zero_totals = \<lparr>t_imps = 0, t_revenue = 0, sumLatency = 0, sumFillImps = 0\<rparr>"

definition formats :: "Format list" where
  "formats = [Banner, Interstitial, Rewarded, Native]"

text \<open>\<open>Math.round\<close>: the nearest integer, a tie going up.\<close>

definition Math_round :: "real \<Rightarrow> real" where
  "Math_round x = of_int \<lfloor>x + 1 / 2\<rfloor>"

text \<open>The body of the inner loop: one ad unit is added to the bucket of its format.\<close>

definition accumulate :: "AdUnitMetrics \<Rightarrow> (Format \<rightharpoonup> Totals) \<Rightarrow> (Format \<rightharpoonup> Totals)" where
  "accumulate m perFormat =
     (let key = format m;
          cur = (case perFormat key of None \<Rightarrow> zero_totals | Some t \<Rightarrow> t)
      in perFormat(key \<mapsto>
           \<lparr>t_imps = t_imps cur + impressions m,
            t_revenue = t_revenue cur + unit_revenue m,
            sumLatency = sumLatency cur + unit_latency_ms m * impressions m,
            sumFillImps = sumFillImps cur + unit_fill_rate m * impressions m\<rparr>))"

definition perFormat_of :: "InventoryProfile list \<Rightarrow> (Format \<rightharpoonup> Totals)" where
  "perFormat_of inventory =
     fold (\<lambda>inv perFormat. fold accumulate (metrics inv) perFormat) inventory Map.empty"

text \<open>
  One entry of \<open>byFormat\<close>. The source guards the two gaps with \<open>benchmarks[f] ? ... : 0\<close>;
  the table has an object for each of the four formats, so the guard always takes its
  first branch. \<open>benchmarks[f].avg_ecpm || 1\<close> is 1 when the benchmark is 0.
\<close>

definition format_entry :: "(Format \<rightharpoonup> Totals) \<Rightarrow> Format \<Rightarrow> Format \<times> FormatAggregate" where
  "format_entry perFormat f =
     (let agg = (case perFormat f of None \<Rightarrow> zero_totals | Some t \<Rightarrow> t);
          avg_ecpm' = (if t_imps agg > 0 then (t_revenue agg * 1000) / t_imps agg else 0);
          fill_rate' = (if t_imps agg > 0 then sumFillImps agg / t_imps agg else 0);
          latency_ms' = (if t_imps agg > 0 then Math_round (sumLatency agg / t_imps agg) else 0)
      in (f, \<lparr>avg_ecpm = avg_ecpm', fill_rate = fill_rate', latency_ms = latency_ms',
               imps = t_imps agg, revenue = t_revenue agg,
               avg_ecpm_gap = (avg_ecpm' - bm_avg_ecpm (benchmarks f))
                 / (if bm_avg_ecpm (benchmarks f) = 0 then 1 else bm_avg_ecpm (benchmarks f)),
               fill_rate_gap = fill_rate' - bm_fill_rate (benchmarks f)\<rparr>))"

text \<open>The reducer of \<open>totals\<close>: it reads the entry's already normalised rates.\<close>

definition add_entry :: "Totals \<Rightarrow> FormatAggregate \<Rightarrow> Totals" where
  "add_entry acc cur =
     \<lparr>t_imps = t_imps acc + imps cur,
      t_revenue = t_revenue acc + revenue cur,
      sumLatency = sumLatency acc + latency_ms cur * imps cur,
      sumFillImps = sumFillImps acc + fill_rate cur * imps cur\<rparr>"

definition normalise_global :: "Totals \<Rightarrow> GlobalAggregate" where
  "normalise_global totals =
     \<lparr>global_avg_ecpm = (if t_imps totals > 0 then (t_revenue totals * 1000) / t_imps totals else 0),
      global_fill_rate = (if t_imps totals > 0 then sumFillImps totals / t_imps totals else 0),
      global_latency_ms =
        (if t_imps totals > 0 then Math_round (sumLatency totals / t_imps totals) else 0)\<rparr>"

definition aggregate :: "InventoryProfile list \<Rightarrow> Aggregate" where
  "aggregate inventory =
     (let perFormat = perFormat_of inventory;
          byFormat' = map (format_entry perFormat) formats;
          totals = foldl add_entry zero_totals (map snd byFormat')
      in \<lparr>byFormat = byFormat', global = normalise_global totals\<rparr>)"

section \<open>Strings and the host environment\<close>

text \<open>
  Three things come from the JavaScript host, not from this program: the clock
  (\<open>Date.now()\<close>, milliseconds as a natural number), the conversion of an arbitrary
  number to a string (string concatenation and template literals) and
  \<open>Number.prototype.toFixed(2)\<close>. They are passed in as a \<open>Runtime\<close>. Integers are
  printed by \<open>show_int\<close> (decimal) and \<open>toString36\<close> (radix 36), as the host does for
  integers of their size.

  A character of the fixed guidance text that is not ASCII is written \<open><U+hhhh>\<close> with
  its code point.
\<close>

record Runtime =
  date_now :: nat
  number_toString :: "real \<Rightarrow> string"
  number_toFixed2 :: "real \<Rightarrow> string"

definition digit36 :: "nat \<Rightarrow> char" where
  "digit36 d = ''0123456789abcdefghijklmnopqrstuvwxyz'' ! (d mod 36)"

fun toString36 :: "nat \<Rightarrow> string" where
  "toString36 n = (if n < 36 then [digit36 n] else toString36 (n div 36) @ [digit36 (n mod 36)])"

fun show_nat :: "nat \<Rightarrow> string" where
  "show_nat n = (if n < 10 then [digit36 n] else show_nat (n div 10) @ [digit36 (n mod 10)])"

definition show_int :: "int \<Rightarrow> string" where
  "show_int i = (if i < 0 then ''-'' @ show_nat (nat (- i)) else show_nat (nat i))"

fun join :: "string \<Rightarrow> string list \<Rightarrow> string" where
  "join sep [] = []"
| "join sep [x] = x"
| "join sep (x # y # ys) = x @ sep @ join sep (y # ys)"

definition newline :: string where
  "newline = [CHR 0x0A]"

definition format_name :: "Format \<Rightarrow> string" where
  "format_name f = (case f of Banner \<Rightarrow> ''banner'' | Interstitial \<Rightarrow> ''interstitial''
                    | Rewarded \<Rightarrow> ''rewarded'' | Native \<Rightarrow> ''native'')"

section \<open>Tactics\<close>

definition sdkTarget :: string where
  "sdkTarget = ''22.0.0''"

definition biddingPartners :: "string list" where
  "biddingPartners = [''ironSource'', ''Unity Ads'', ''AppLovin'']"

text \<open>
  \<open>agg.byFormat.f\<close>: the entry stored under the key, if there is one. The object is
  kept as the list of its entries in insertion order, which \<open>Object.values\<close> follows;
  \<open>aggregate\<close> builds it from four distinct keys.
\<close>

definition entry_of :: "Aggregate \<Rightarrow> Format \<Rightarrow> FormatAggregate option" where
  "entry_of agg f = map_of (byFormat agg) f"

definition biddingNeeded :: "Aggregate \<Rightarrow> bool" where
  "biddingNeeded agg \<longleftrightarrow>
     global_fill_rate (global agg) \<ge> 0.85 \<and>
     ((case entry_of agg Rewarded of None \<Rightarrow> 0 | Some e \<Rightarrow> avg_ecpm_gap e) \<le> - 0.10 \<or>
      (case entry_of agg Interstitial of None \<Rightarrow> 0 | Some e \<Rightarrow> avg_ecpm_gap e) \<le> - 0.10)"

definition enable_bidding :: "Runtime \<Rightarrow> BusinessConstraints \<Rightarrow> PlanSection" where
  "enable_bidding rt c =
     \<lparr>sec_id = ''enable_bidding'',
      title = ''Enable AdMob Bidding for High-Volume Partners'',
      impact_score = 5,
      effort_score = (if developer_capacity c = Low then 4 else 3),
      markdown = join newline
        [''- Upgrade Google Mobile Ads SDK to version '' @ sdkTarget @ '' for Android/iOS.'',
         ''- In AdMob <U+2192> Mediation <U+2192> Ad sources, enable bidding for ''
           @ join '', '' biddingPartners @ ''.'',
         ''- Migrate top waterfall instances to bidding; keep a Tier-3 fallback waterfall.'',
         ''- Set up Firebase Remote Config experiment: `bidding_migration_''
           @ toString36 (date_now rt) @ ''`.'',
         '''',
         ''**Metrics to monitor:**'',
         ''- Target eCPM uplift: +15<U+2013>25%'',
         ''- Latency: keep below '' @ number_toString rt (latency_budget_ms c) @ '' ms'']\<rparr>"

definition floorsNeeded :: "Aggregate \<Rightarrow> bool" where
  "floorsNeeded agg \<longleftrightarrow>
     global_fill_rate (global agg) \<ge> 0.90 \<and>
     global_avg_ecpm (global agg) \<le>
       0.95 * (case entry_of agg Rewarded of None \<Rightarrow> global_avg_ecpm (global agg)
               | Some e \<Rightarrow> avg_ecpm e)"

definition geo_floors :: PlanSection where
  "geo_floors =
     \<lparr>sec_id = ''geo_floors'',
      title = ''Introduce Dynamic eCPM Floors by Geo and Format'',
      impact_score = 4,
      effort_score = 2,
      markdown = join newline
        [''- Create price floors segmented by major geos (Tier1/Tier2/Tier3) and format.'',
         ''- Use historical eCPM percentiles: start at P40<U+2013>P50 for Tier1, P30<U+2013>P40 for Tier2, minimal floors for Tier3.'',
         ''- Review floors weekly and auto-adjust based on win rate and fill.'',
         ''- Keep fill > 88% and ramp floors gradually to avoid demand suppression.'',
         '''',
         ''**Metrics to monitor:**'',
         ''- eCPM uplift versus last 7-day baseline'',
         ''- Fill rate stability (target <U+2265> 0.88)'']\<rparr>"

definition totalImps :: "Aggregate \<Rightarrow> real" where
  "totalImps agg = foldl (\<lambda>s f. s + imps f) 0 (map snd (byFormat agg))"

definition hasSingleRewardedUnit :: "InventoryProfile list \<Rightarrow> bool" where
  "hasSingleRewardedUnit inventory \<longleftrightarrow>
     list_ex (\<lambda>inv. length (filter (\<lambda>m. format m = Rewarded) (metrics inv)) \<le> 1) inventory"

definition segment_units :: PlanSection where
  "segment_units =
     \<lparr>sec_id = ''segment_units'',
      title = ''Segment Ad Units by User Value and Session Depth'',
      impact_score = 4,
      effort_score = 3,
      markdown = join newline
        [''- Create audience tiers (whale/mid/casual) via Firebase/GA4.'',
         ''- Duplicate rewarded and interstitial units per tier; apply floors and frequency caps by tier.'',
         ''- Use Remote Config to route ad requests by audience in real time.'',
         '''',
         ''**Metrics to monitor:**'',
         ''- ARPDAU and retention delta by audience'',
         ''- eCPM per tier; watch whale latency'']\<rparr>"

definition latencyHigh :: "BusinessConstraints \<Rightarrow> Aggregate \<Rightarrow> bool" where
  "latencyHigh c agg \<longleftrightarrow> global_latency_ms (global agg) > latency_budget_ms c"

definition latency_opt :: "Runtime \<Rightarrow> BusinessConstraints \<Rightarrow> PlanSection" where
  "latency_opt rt c =
     \<lparr>sec_id = ''latency_opt'',
      title = ''Optimize Latency and SDK Load'',
      impact_score = 3,
      effort_score = 2,
      markdown = join newline
        [''- Enable parallel ad requests and prefetch for interstitial/rewarded.'',
         ''- Cache SDK initialization; avoid redundant re-init per screen.'',
         ''- Lazy-load banners below the fold; defer heavy rendering.'',
         ''- Consider Google Mobile Ads Lite or network timeouts on low-bandwidth segments.'',
         '''',
         ''**Metrics to monitor:**'',
         ''- Median ad load time; 95th percentile under ''
           @ number_toString rt (latency_budget_ms c) @ '' ms'',
         ''- ANR/Crash rate in Play Console'']\<rparr>"

definition hasPolicyFlags :: "InventoryProfile list \<Rightarrow> bool" where
  "hasPolicyFlags inventory \<longleftrightarrow>
     list_ex (\<lambda>inv. length (case policy_flags inv of None \<Rightarrow> [] | Some fl \<Rightarrow> fl) > 0) inventory"

definition policy_health :: PlanSection where
  "policy_health =
     \<lparr>sec_id = ''policy_health'',
      title = ''Policy and Inventory Health Actions'',
      impact_score = 3,
      effort_score = 2,
      markdown = join newline
        [''- Review Ad Review Center weekly; auto-archive low-quality creatives.'',
         ''- Apply sensitive category blocklists where CTR is high but eCPM is low.'',
         ''- Ensure content compliance (families, COPPA) by ad unit and placement.'',
         '''',
         ''**Metrics to monitor:**'',
         ''- Policy warning count'',
         ''- Fill/Revenue impact from blocklists'']\<rparr>"

definition bannerWeak :: "Aggregate \<Rightarrow> bool" where
  "bannerWeak agg \<longleftrightarrow>
     (case entry_of agg Banner of None \<Rightarrow> 0 | Some e \<Rightarrow> avg_ecpm e) < bm_avg_ecpm (benchmarks Banner) \<and>
     (case entry_of agg Banner of None \<Rightarrow> 0 | Some e \<Rightarrow> fill_rate e) \<ge> 0.9"

definition banner_refresh :: PlanSection where
  "banner_refresh =
     \<lparr>sec_id = ''banner_refresh'',
      title = ''Tune Banner Refresh and Viewability'',
      impact_score = 3,
      effort_score = 1,
      markdown = join newline
        [''- Set refresh between 30<U+2013>60s; avoid < 30s to reduce latency and viewability issues.'',
         ''- Use sticky banners in high-viewability slots; avoid stacking multiple banners.'',
         ''- Measure viewable impressions and click quality; prune low-quality placements.'',
         '''',
         ''**Metrics to monitor:**'',
         ''- Viewability rate and Invalid Traffic (IVT) signals'',
         ''- eCPM change post refresh tuning'']\<rparr>"

definition rewardedVolumeHigh :: "Aggregate \<Rightarrow> bool" where
  "rewardedVolumeHigh agg \<longleftrightarrow>
     (case entry_of agg Rewarded of None \<Rightarrow> 0 | Some e \<Rightarrow> imps e) > 150000"

definition rewarded_caps :: PlanSection where
  "rewarded_caps =
     \<lparr>sec_id = ''rewarded_caps'',
      title = ''Apply Rewarded Frequency Caps and Placement Strategy'',
      impact_score = 3,
      effort_score = 2,
      markdown = join newline
        [''- Cap at 2<U+2013>3 rewarded ads per session for casual users; higher caps for whale cohort.'',
         ''- Gate rewards behind meaningful actions (level up, revive) to keep perceived value.'',
         ''- A/B test cap levels via Remote Config (e.g., 2 vs 3).'',
         '''',
         ''**Metrics to monitor:**'',
         ''- Session length, retention, ARPDAU'',
         ''- Complaints/ratings related to ads'']\<rparr>"

text \<open>
  Reading a property of a missing \<open>constraints\<close> object throws a \<open>TypeError\<close>. The first
  such read is \<open>developer_capacity\<close> inside the first rule when that rule fires, and
  \<open>latency_budget_ms\<close> in the condition of the fourth rule otherwise. The error carries
  the name of the property read.
\<close>

datatype js_error = TypeError string

definition tactics ::
  "Runtime \<Rightarrow> InventoryProfile list \<Rightarrow> BusinessConstraints option \<Rightarrow> Aggregate
     \<Rightarrow> js_error + PlanSection list" where
  "tactics rt inventory constraints' agg =
     (case constraints' of
        None \<Rightarrow>
          Inl (TypeError (if biddingNeeded agg then ''developer_capacity'' else ''latency_budget_ms''))
      | Some c \<Rightarrow>
          Inr ((if biddingNeeded agg then [enable_bidding rt c] else [])
             @ (if floorsNeeded agg then [geo_floors] else [])
             @ (if totalImps agg > 200000 \<and> hasSingleRewardedUnit inventory
                then [segment_units] else [])
             @ (if latencyHigh c agg then [latency_opt rt c] else [])
             @ (if hasPolicyFlags inventory then [policy_health] else [])
             @ (if bannerWeak agg then [banner_refresh] else [])
             @ (if rewardedVolumeHigh agg then [rewarded_caps] else [])))"

section \<open>Sorting and the summary\<close>

text \<open>
  \<open>Array.prototype.sort\<close> with a comparator is a stable sort: an insertion sort that
  puts an element in front of the first later element it does not compare greater than.
  It sorts in place and returns the same array.
\<close>

fun insert_sorted :: "('a \<Rightarrow> 'a \<Rightarrow> int) \<Rightarrow> 'a \<Rightarrow> 'a list \<Rightarrow> 'a list" where
  "insert_sorted cmp x [] = [x]"
| "insert_sorted cmp x (y # ys) =
     (if cmp x y \<le> 0 then x # y # ys else y # insert_sorted cmp x ys)"

definition array_sort :: "('a \<Rightarrow> 'a \<Rightarrow> int) \<Rightarrow> 'a list \<Rightarrow> 'a list" where
  "array_sort cmp xs = foldr (insert_sorted cmp) xs []"

text \<open>The comparator \<open>(b.impact_score - a.impact_score) || (a.effort_score - b.effort_score)\<close>.\<close>

definition compare_sections :: "PlanSection \<Rightarrow> PlanSection \<Rightarrow> int" where
  "compare_sections a b =
     (if impact_score b - impact_score a \<noteq> 0 then impact_score b - impact_score a
      else effort_score a - effort_score b)"

definition fmt :: "Runtime \<Rightarrow> real \<Rightarrow> string" where
  "fmt rt n = number_toFixed2 rt n"

definition format_line :: "Runtime \<Rightarrow> Aggregate \<Rightarrow> Format \<Rightarrow> string" where
  "format_line rt agg f =
     (let m = entry_of agg f;
          bm = benchmarks f;
          e = (case m of None \<Rightarrow> 0 | Some a \<Rightarrow> avg_ecpm a);
          g = (case m of None \<Rightarrow> 0 | Some a \<Rightarrow> avg_ecpm_gap a)
      in ''- '' @ format_name f @ '': '' @ fmt rt e @ '' (benchmark '' @ fmt rt (bm_avg_ecpm bm)
         @ '') <U+2014> gap '' @ (if g * 100 \<ge> 0 then ''+'' else '''') @ fmt rt (g * 100) @ ''%'')"

definition priority_line :: "nat \<Rightarrow> PlanSection \<Rightarrow> string" where
  "priority_line i s =
     show_nat (i + 1) @ ''. '' @ title s @ '' (Impact '' @ show_int (impact_score s)
       @ '' / Effort '' @ show_int (effort_score s) @ '')''"

definition summary_head :: "Runtime \<Rightarrow> string \<Rightarrow> Aggregate \<Rightarrow> string list" where
  "summary_head rt accountName agg =
     [''# Technical Monetization Plan <U+2014> '' @ accountName,
      '''',
      ''## Inventory Snapshot (Aggregated)'',
      ''- Global eCPM: '' @ fmt rt (global_avg_ecpm (global agg)),
      ''- Global fill rate: '' @ fmt rt (global_fill_rate (global agg)),
      ''- Global latency: '' @ number_toString rt (global_latency_ms (global agg)) @ '' ms'',
      '''',
      ''### Per-format eCPM vs benchmark'']
     @ map (format_line rt agg) [Rewarded, Interstitial, Banner, Native]
     @ ['''',
        ''## Priority Summary'']"

text \<open>
  \<open>composeSummary\<close> sorts the array it is given in place, so the caller's array is the
  sorted one afterwards: the model returns it beside the text.
\<close>

definition composeSummary ::
  "Runtime \<Rightarrow> string \<Rightarrow> Aggregate \<Rightarrow> PlanSection list \<Rightarrow> string \<times> PlanSection list" where
  "composeSummary rt accountName agg sections' =
     (let sorted' = array_sort compare_sections sections';
          lines = summary_head rt accountName agg
                  @ map (\<lambda>(i, s). priority_line i s) (enumerate 0 sorted')
                  @ ['''']
      in (join newline lines, sorted'))"

section \<open>The request handler\<close>

text \<open>
  The handler answers with a JSON body and a status: 200 with the plan, 400 with the
  fixed diagnostic, 500 with the message of whatever was thrown. The message of the
  \<open>TypeError\<close> is the one the host gives to a property read on \<open>undefined\<close>.
\<close>

datatype Response = Http200 PlanResponse | Http400 string | Http500 string

definition error_message :: "js_error \<Rightarrow> string" where
  "error_message e =
     (case e of TypeError p \<Rightarrow>
        ''Cannot read properties of undefined (reading '' @ [CHR 0x27] @ p @ [CHR 0x27] @ '')'')"

definition POST :: "Runtime \<Rightarrow> PlanCreateRequest \<Rightarrow> Response" where
  "POST rt body =
     (case (req_account_name body, req_inventory body) of
        (Some name, Some inventory) \<Rightarrow>
          if name = [] \<or> inventory = [] then Http400 ''Missing account_name or inventory''
          else
            (let agg = aggregate inventory
             in case tactics rt inventory (req_constraints body) agg of
                  Inl e \<Rightarrow> Http500 (error_message e)
                | Inr tactic_sections \<Rightarrow>
                    (let sorted_sections = array_sort compare_sections tactic_sections;
                         (summary', sections') =
                            composeSummary rt name agg sorted_sections
                     in Http200 \<lparr>account_name = name, summary = summary',
                                 sections = sections',
                                 constraints = req_constraints body\<rparr>))
      | _ \<Rightarrow> Http400 ''Missing account_name or inventory'')"

declare toString36.simps [simp del]

declare show_nat.simps [simp del]

section \<open>The inventory as one pool\<close>

text \<open>
  The reference the aggregate is compared with: all ad units of the request in one list,
  the units of one format, and the four sums over a list of units.
\<close>

definition all_units :: "InventoryProfile list \<Rightarrow> AdUnitMetrics list" where
  "all_units inventory = concat (map metrics inventory)"

definition bucket :: "Format \<Rightarrow> InventoryProfile list \<Rightarrow> AdUnitMetrics list" where
  "bucket f inventory = filter (\<lambda>m. format m = f) (all_units inventory)"

definition pool :: "AdUnitMetrics list \<Rightarrow> Totals" where
  "pool units =
     \<lparr>t_imps = sum_list (map impressions units),
      t_revenue = sum_list (map unit_revenue units),
      sumLatency = sum_list (map (\<lambda>m. unit_latency_ms m * impressions m) units),
      sumFillImps = sum_list (map (\<lambda>m. unit_fill_rate m * impressions m) units)\<rparr>"

definition plus_totals :: "Totals \<Rightarrow> Totals \<Rightarrow> Totals" where
  "plus_totals a b =
     \<lparr>t_imps = t_imps a + t_imps b, t_revenue = t_revenue a + t_revenue b,
      sumLatency = sumLatency a + sumLatency b, sumFillImps = sumFillImps a + sumFillImps b\<rparr>"

section \<open>Aggregation with every division checked\<close>

text \<open>
  The same computation as \<open>format_entry\<close>, \<open>normalise_global\<close> and \<open>aggregate\<close>, with
  each \<open>/\<close> of the source replaced by a division that has no result when the divisor
  is zero.
\<close>

definition checked_div :: "real \<Rightarrow> real \<Rightarrow> real option" where
  "checked_div x y = (if y = 0 then None else Some (x / y))"

definition format_entry_checked ::
  "(Format \<rightharpoonup> Totals) \<Rightarrow> Format \<Rightarrow> (Format \<times> FormatAggregate) option" where
  "format_entry_checked perFormat f =
     (let agg = (case perFormat f of None \<Rightarrow> zero_totals | Some t \<Rightarrow> t) in
      Option.bind (if t_imps agg > 0 then checked_div (t_revenue agg * 1000) (t_imps agg) else Some 0)
        (\<lambda>avg_ecpm'.
      Option.bind (if t_imps agg > 0 then checked_div (sumFillImps agg) (t_imps agg) else Some 0)
        (\<lambda>fill_rate'.
      Option.bind (if t_imps agg > 0
                   then map_option Math_round (checked_div (sumLatency agg) (t_imps agg)) else Some 0)
        (\<lambda>latency_ms'.
      Option.bind (checked_div (avg_ecpm' - bm_avg_ecpm (benchmarks f))
                     (if bm_avg_ecpm (benchmarks f) = 0 then 1 else bm_avg_ecpm (benchmarks f)))
        (\<lambda>gap.
      Some (f, \<lparr>avg_ecpm = avg_ecpm', fill_rate = fill_rate', latency_ms = latency_ms',
                 imps = t_imps agg, revenue = t_revenue agg,
                 avg_ecpm_gap = gap,
                 fill_rate_gap = fill_rate' - bm_fill_rate (benchmarks f)\<rparr>))))))"

definition normalise_global_checked :: "Totals \<Rightarrow> GlobalAggregate option" where
  "normalise_global_checked totals =
     Option.bind (if t_imps totals > 0 then checked_div (t_revenue totals * 1000) (t_imps totals) else Some 0)
       (\<lambda>e.
     Option.bind (if t_imps totals > 0 then checked_div (sumFillImps totals) (t_imps totals) else Some 0)
       (\<lambda>fl.
     Option.bind (if t_imps totals > 0
                  then map_option Math_round (checked_div (sumLatency totals) (t_imps totals)) else Some 0)
       (\<lambda>l.
     Some \<lparr>global_avg_ecpm = e, global_fill_rate = fl, global_latency_ms = l\<rparr>)))"

definition aggregate_checked :: "InventoryProfile list \<Rightarrow> Aggregate option" where
  "aggregate_checked inventory =
     (let perFormat = perFormat_of inventory in
      Option.bind (those (map (format_entry_checked perFormat) formats))
        (\<lambda>byFormat'.
      Option.bind (normalise_global_checked (foldl add_entry zero_totals (map snd byFormat')))
        (\<lambda>global'.
      Some \<lparr>byFormat = byFormat', global = global'\<rparr>)))"

section \<open>The order of the plan\<close>

text \<open>A section is ranked before another: more impact, or the same impact and no more effort.\<close>

definition ranked_before :: "PlanSection \<Rightarrow> PlanSection \<Rightarrow> bool" where
  "ranked_before a b \<longleftrightarrow>
     impact_score a > impact_score b \<or>
     (impact_score a = impact_score b \<and> effort_score a \<le> effort_score b)"

text \<open>A rule fires in a list of sections when the list has a section with the rule's id.\<close>

definition fires :: "string \<Rightarrow> PlanSection list \<Rightarrow> bool" where
  "fires rule secs \<longleftrightarrow> list_ex (\<lambda>s. sec_id s = rule) secs"

text \<open>
  Two sections are the same but for the token when they agree on id, title and both
  scores, and their guidance bodies are equal or, for the enable_bidding section, equal
  after one occurrence of the first token is replaced by the second. Two responses are
  the same plan when they have the same status and, for a plan, the same account name,
  constraints and summary, and sections that are pairwise the same but for the token.
\<close>

definition same_but_token :: "string \<Rightarrow> string \<Rightarrow> PlanSection \<Rightarrow> PlanSection \<Rightarrow> bool" where
  "same_but_token t1 t2 a b \<longleftrightarrow>
     sec_id a = sec_id b \<and> title a = title b \<and>
     impact_score a = impact_score b \<and> effort_score a = effort_score b \<and>
     (markdown a = markdown b \<or>
      sec_id a = ''enable_bidding'' \<and>
      (\<exists>pre post. markdown a = pre @ t1 @ post \<and> markdown b = pre @ t2 @ post))"

fun same_plan :: "string \<Rightarrow> string \<Rightarrow> Response \<Rightarrow> Response \<Rightarrow> bool" where
  "same_plan t1 t2 (Http200 p) (Http200 q) \<longleftrightarrow>
     account_name p = account_name q \<and> constraints p = constraints q \<and>
     summary p = summary q \<and>
     list_all2 (same_but_token t1 t2) (sections p) (sections q)"
| "same_plan t1 t2 (Http400 a) (Http400 b) \<longleftrightarrow> a = b"
| "same_plan t1 t2 (Http500 a) (Http500 b) \<longleftrightarrow> a = b"
| "same_plan t1 t2 _ _ \<longleftrightarrow> False"

section \<open>Example requests\<close>

text \<open>\<open>initRequest\<close> is the request the form of the application starts with.\<close>

definition init_inventory :: "InventoryProfile list" where
  "init_inventory =
     [\<lparr>app_id = ''com.demo.puzzleplanet'', app_name = ''Puzzle Planet'', sdk_version = ''21.5.0'',
       mediation_partners = [''AdMob'', ''UnityAds'', ''ironSource''],
       metrics =
         [\<lparr>ad_unit_id = ''pp_rewarded_global'', format = Rewarded, platform = Android,
            unit_avg_ecpm = 8.2, unit_fill_rate = 0.86, unit_latency_ms = 1300,
            impressions = 240000, unit_revenue = 1968\<rparr>,
          \<lparr>ad_unit_id = ''pp_interstitial_global'', format = Interstitial, platform = Android,
            unit_avg_ecpm = 5.5, unit_fill_rate = 0.92, unit_latency_ms = 1100,
            impressions = 300000, unit_revenue = 1650\<rparr>,
          \<lparr>ad_unit_id = ''pp_banner_global'', format = Banner, platform = Android,
            unit_avg_ecpm = 1.1, unit_fill_rate = 0.95, unit_latency_ms = 900,
            impressions = 1200000, unit_revenue = 1320\<rparr>],
       policy_flags = Some []\<rparr>]"

definition init_constraints :: BusinessConstraints where
  "init_constraints =
     \<lparr>primary_goal = Maximize_revenue, latency_budget_ms = 1200, developer_capacity = Medium\<rparr>"

definition initRequest :: PlanCreateRequest where
  "initRequest =
     \<lparr>req_account_name = Some ''Demo Publisher Inc'',
      req_inventory = Some init_inventory,
      req_constraints = Some init_constraints\<rparr>"

text \<open>
  Two more inventories: one whose banner average latency is 900.4 ms, and one whose only
  unit has served nothing yet.
\<close>

definition rounding_inventory :: "InventoryProfile list" where
  "rounding_inventory =
     [\<lparr>app_id = ''com.demo.puzzleplanet'', app_name = ''Puzzle Planet'', sdk_version = ''21.5.0'',
       mediation_partners = [''AdMob''],
       metrics =
         [\<lparr>ad_unit_id = ''banner_a'', format = Banner, platform = Android,
            unit_avg_ecpm = 1, unit_fill_rate = 1, unit_latency_ms = 900,
            impressions = 3, unit_revenue = 0\<rparr>,
          \<lparr>ad_unit_id = ''banner_b'', format = Banner, platform = Android,
            unit_avg_ecpm = 1, unit_fill_rate = 1, unit_latency_ms = 901,
            impressions = 2, unit_revenue = 0\<rparr>,
          \<lparr>ad_unit_id = ''interstitial_a'', format = Interstitial, platform = Android,
            unit_avg_ecpm = 1, unit_fill_rate = 1, unit_latency_ms = 901,
            impressions = 1, unit_revenue = 0\<rparr>],
       policy_flags = None\<rparr>]"

definition idle_inventory :: "InventoryProfile list" where
  "idle_inventory =
     [\<lparr>app_id = ''com.demo.puzzleplanet'', app_name = ''Puzzle Planet'', sdk_version = ''21.5.0'',
       mediation_partners = [''AdMob''],
       metrics =
         [\<lparr>ad_unit_id = ''banner_a'', format = Banner, platform = Android,
            unit_avg_ecpm = 0, unit_fill_rate = 0, unit_latency_ms = 0,
            impressions = 0, unit_revenue = 0\<rparr>],
       policy_flags = None\<rparr>]"

text \<open>
  A runtime for the examples. It prints a number with two decimals as the host does
  (the nearest multiple of 0.01, a tie going away from zero) and an integer value in
  decimal. \<open>tight_request\<close> is the starting request with a latency budget of 900 ms.
\<close>

definition toFixed2 :: "real \<Rightarrow> string" where
  "toFixed2 x =
     (let n = nat \<lfloor>\<bar>x\<bar> * 100 + 1 / 2\<rfloor>
      in (if x < 0 then ''-'' else '''') @ show_nat (n div 100) @ ''.''
         @ [digit36 (n mod 100 div 10), digit36 (n mod 10)])"

definition example_runtime :: Runtime where
  "example_runtime =
     \<lparr>date_now = 1700000000000,
      number_toString = (\<lambda>x. show_int \<lfloor>x\<rfloor>),
      number_toFixed2 = toFixed2\<rparr>"

definition tight_request :: PlanCreateRequest where
  "tight_request =
     initRequest\<lparr>req_constraints := Some (init_constraints\<lparr>latency_budget_ms := 900\<rparr>)\<rparr>"

text \<open>
  A request with a single rewarded unit of \<open>n\<close> impressions, and an aggregate object
  that has no entry for the rewarded format.
\<close>

definition boundary_inventory :: "real \<Rightarrow> InventoryProfile list" where
  "boundary_inventory n =
     [\<lparr>app_id = ''com.demo.puzzleplanet'', app_name = ''Puzzle Planet'', sdk_version = ''21.5.0'',
       mediation_partners = [''AdMob''],
       metrics =
         [\<lparr>ad_unit_id = ''pp_rewarded_global'', format = Rewarded, platform = Android,
            unit_avg_ecpm = 8.2, unit_fill_rate = 0.86, unit_latency_ms = 1300,
            impressions = n, unit_revenue = 1968\<rparr>],
       policy_flags = None\<rparr>]"

definition boundary_request :: "real \<Rightarrow> PlanCreateRequest" where
  "boundary_request n =
     \<lparr>req_account_name = Some ''Demo Publisher Inc'',
      req_inventory = Some (boundary_inventory n),
      req_constraints = Some init_constraints\<rparr>"

definition bare_aggregate :: Aggregate where
  "bare_aggregate =
     \<lparr>byFormat = [],
      global = \<lparr>global_avg_ecpm = 0, global_fill_rate = 0.95, global_latency_ms = 900\<rparr>\<rparr>"

section \<open>The buckets of the aggregate\<close>

lemma accumulate_apply:
  "accumulate m pf f =
     (if format m = f
      then Some (plus_totals (case pf f of None \<Rightarrow> zero_totals | Some t \<Rightarrow> t) (pool [m]))
      else pf f)"
  by (simp add: accumulate_def Let_def pool_def plus_totals_def)

lemma plus_totals_assoc: "plus_totals (plus_totals a b) c = plus_totals a (plus_totals b c)"
  by (simp add: plus_totals_def)

lemma pool_Cons: "pool (m # ms) = plus_totals (pool [m]) (pool ms)"
  by (simp add: pool_def plus_totals_def)

lemma plus_totals_zero [simp]: "plus_totals zero_totals a = a" "plus_totals a (pool []) = a"
  by (simp_all add: plus_totals_def zero_totals_def pool_def)

lemma fold_accumulate:
  "fold accumulate units pf f =
     (if filter (\<lambda>m. format m = f) units = [] then pf f
      else Some (plus_totals (case pf f of None \<Rightarrow> zero_totals | Some t \<Rightarrow> t)
                   (pool (filter (\<lambda>m. format m = f) units))))"
proof (induction units arbitrary: pf)
  case Nil
  show ?case by simp
next
  case (Cons m ms)
  have "fold accumulate (m # ms) pf f = fold accumulate ms (accumulate m pf) f"
    by simp
  also have "\<dots> =
     (if filter (\<lambda>m. format m = f) ms = [] then accumulate m pf f
      else Some (plus_totals (case accumulate m pf f of None \<Rightarrow> zero_totals | Some t \<Rightarrow> t)
                   (pool (filter (\<lambda>m. format m = f) ms))))"
    by (rule Cons.IH)
  also have "\<dots> =
     (if filter (\<lambda>m. format m = f) (m # ms) = [] then pf f
      else Some (plus_totals (case pf f of None \<Rightarrow> zero_totals | Some t \<Rightarrow> t)
                   (pool (filter (\<lambda>m. format m = f) (m # ms)))))"
    by (simp add: accumulate_apply plus_totals_assoc pool_Cons [of m "filter _ ms"])
  finally show ?case .
qed

lemma fold_profiles:
  "fold (\<lambda>inv perFormat. fold accumulate (metrics inv) perFormat) inventory pf =
     fold accumulate (concat (map metrics inventory)) pf"
  by (induction inventory arbitrary: pf) simp_all

lemma perFormat_of_units: "perFormat_of inventory = fold accumulate (all_units inventory) Map.empty"
  by (simp add: perFormat_of_def all_units_def fold_profiles)

lemma perFormat_of_bucket:
  "perFormat_of inventory f =
     (if bucket f inventory = [] then None else Some (pool (bucket f inventory)))"
  by (simp add: perFormat_of_units fold_accumulate bucket_def plus_totals_def zero_totals_def pool_def)

lemma pool_Nil: "pool [] = zero_totals"
  by (simp add: pool_def zero_totals_def)

lemma bucket_totals:
  "(case perFormat_of inventory f of None \<Rightarrow> zero_totals | Some t \<Rightarrow> t) = pool (bucket f inventory)"
  by (simp add: perFormat_of_bucket pool_Nil)

lemma entry_of_aggregate:
  "entry_of (aggregate inventory) f = Some (snd (format_entry (perFormat_of inventory) f))"
  by (cases f) (simp_all add: entry_of_def aggregate_def Let_def formats_def format_entry_def)

lemma entry_fields:
  "entry_of (aggregate inventory) f = Some e \<Longrightarrow>
     imps e = t_imps (pool (bucket f inventory)) \<and>
     revenue e = t_revenue (pool (bucket f inventory)) \<and>
     avg_ecpm e = (if t_imps (pool (bucket f inventory)) > 0
                   then (t_revenue (pool (bucket f inventory)) * 1000) / t_imps (pool (bucket f inventory))
                   else 0) \<and>
     fill_rate e = (if t_imps (pool (bucket f inventory)) > 0
                    then sumFillImps (pool (bucket f inventory)) / t_imps (pool (bucket f inventory))
                    else 0) \<and>
     latency_ms e = (if t_imps (pool (bucket f inventory)) > 0
                     then Math_round (sumLatency (pool (bucket f inventory)) / t_imps (pool (bucket f inventory)))
                     else 0) \<and>
     avg_ecpm_gap e = (avg_ecpm e - bm_avg_ecpm (benchmarks f))
        / (if bm_avg_ecpm (benchmarks f) = 0 then 1 else bm_avg_ecpm (benchmarks f)) \<and>
     fill_rate_gap e = fill_rate e - bm_fill_rate (benchmarks f)"
  unfolding entry_of_aggregate
  by (auto simp add: format_entry_def Let_def bucket_totals)

lemma format_entry_checked_total:
  "format_entry_checked perFormat f = Some (format_entry perFormat f)"
  by (simp add: format_entry_checked_def format_entry_def checked_div_def Let_def)

lemma normalise_global_checked_total:
  "normalise_global_checked totals = Some (normalise_global totals)"
  by (simp add: normalise_global_checked_def normalise_global_def checked_div_def)

lemma aggregate_checked_total: "aggregate_checked inventory = Some (aggregate inventory)"
  by (simp add: aggregate_checked_def aggregate_def Let_def formats_def
      format_entry_checked_total normalise_global_checked_total)

lemma byFormat_keys: "map fst (byFormat (aggregate inventory)) = [Banner, Interstitial, Rewarded, Native]"
  by (simp add: aggregate_def Let_def formats_def format_entry_def)

lemma benchmark_gap_of_zero:
  "(0 - bm_avg_ecpm (benchmarks f))
     / (if bm_avg_ecpm (benchmarks f) = 0 then 1 else bm_avg_ecpm (benchmarks f)) = - 1"
  by (cases f) simp_all

lemma aggregate_totals:
  "foldl add_entry zero_totals (map snd (byFormat (aggregate inventory))) =
     add_entry (add_entry (add_entry (add_entry zero_totals
       (snd (format_entry (perFormat_of inventory) Banner)))
       (snd (format_entry (perFormat_of inventory) Interstitial)))
       (snd (format_entry (perFormat_of inventory) Rewarded)))
       (snd (format_entry (perFormat_of inventory) Native))"
  by (simp add: aggregate_def Let_def formats_def)

lemma global_aggregate:
  "global (aggregate inventory) =
     normalise_global (foldl add_entry zero_totals (map snd (byFormat (aggregate inventory))))"
  by (simp add: aggregate_def Let_def)

lemma t_imps_add_entry: "t_imps (add_entry acc a) = t_imps acc + imps a"
  by (simp add: add_entry_def)

lemma foldl_imps:
  "foldl (\<lambda>s f. s + imps f) (t_imps acc) xs = t_imps (foldl add_entry acc xs)"
proof (induction xs arbitrary: acc)
  case Nil
  show ?case by simp
next
  case (Cons a xs)
  show ?case
    using Cons.IH [of "add_entry acc a"] by (simp add: t_imps_add_entry)
qed

lemma totalImps_totals:
  "totalImps agg = t_imps (foldl add_entry zero_totals (map snd (byFormat agg)))"
  using foldl_imps [of zero_totals "map snd (byFormat agg)"]
  by (simp add: totalImps_def zero_totals_def)

lemma sum_list_by_format:
  "sum_list (map g units) =
     sum_list (map g (filter (\<lambda>m. format m = Banner) units))
   + sum_list (map g (filter (\<lambda>m. format m = Interstitial) units))
   + sum_list (map g (filter (\<lambda>m. format m = Rewarded) units))
   + (sum_list (map g (filter (\<lambda>m. format m = Native) units)) :: real)"
proof (induction units)
  case Nil
  show ?case by simp
next
  case (Cons m ms)
  then show ?case by (cases "format m") simp_all
qed

lemma totalImps_aggregate:
  "totalImps (aggregate inventory) = sum_list (map impressions (all_units inventory))"
  unfolding totalImps_totals aggregate_totals
  by (simp add: add_entry_def zero_totals_def
      format_entry_def Let_def bucket_totals pool_def bucket_def
      sum_list_by_format [of impressions "all_units inventory"])

lemmas aggregate_eval =
  aggregate_def perFormat_of_def accumulate_def formats_def format_entry_def zero_totals_def
  add_entry_def normalise_global_def Math_round_def Let_def

lemma global_avg_ecpm_pooled:
  "global_avg_ecpm (global (aggregate inventory)) =
     global_avg_ecpm (normalise_global (pool (all_units inventory)))"
proof -
  let ?t = "foldl add_entry zero_totals (map snd (byFormat (aggregate inventory)))"
  have i: "t_imps ?t = t_imps (pool (all_units inventory))"
    using totalImps_aggregate [of inventory]
    by (simp add: totalImps_totals pool_def)
  have r: "t_revenue ?t = t_revenue (pool (all_units inventory))"
    unfolding aggregate_totals
    by (simp add: add_entry_def zero_totals_def format_entry_def Let_def bucket_totals pool_def
        bucket_def sum_list_by_format [of unit_revenue "all_units inventory"])
  show ?thesis
    by (simp add: global_aggregate normalise_global_def i r)
qed

lemma weighted_sum_zero:
  assumes "\<forall>m\<in>set units. 0 \<le> impressions m" and "sum_list (map impressions units) \<le> 0"
  shows "sum_list (map (\<lambda>m. g m * impressions m) units) = (0::real)"
proof -
  have "\<forall>x\<in>set (map impressions units). 0 \<le> x"
    using assms(1) by simp
  moreover have "sum_list (map impressions units) = 0"
    using assms(2) sum_list_nonneg [of "map impressions units"] calculation by fastforce
  ultimately have "\<forall>x\<in>set (map impressions units). x = 0"
    using sum_list_nonneg_eq_0_iff [of "map impressions units"] by blast
  then have "\<forall>m\<in>set units. g m * impressions m = 0"
    by simp
  then show ?thesis
    by (induction units) simp_all
qed

lemma entry_fill_weight:
  assumes "\<forall>m\<in>set (all_units inventory). 0 \<le> impressions m"
  shows "fill_rate (snd (format_entry (perFormat_of inventory) f))
           * imps (snd (format_entry (perFormat_of inventory) f))
         = sumFillImps (pool (bucket f inventory))"
proof -
  have nn: "\<forall>m\<in>set (bucket f inventory). 0 \<le> impressions m"
    using assms by (simp add: bucket_def)
  show ?thesis
  proof (cases "0 < t_imps (pool (bucket f inventory))")
    case True
    then show ?thesis
      by (simp add: format_entry_def Let_def bucket_totals)
  next
    case False
    then have "sum_list (map impressions (bucket f inventory)) \<le> 0"
      by (simp add: pool_def)
    from weighted_sum_zero [OF nn this, of unit_fill_rate] False show ?thesis
      by (simp add: format_entry_def Let_def bucket_totals pool_def)
  qed
qed

lemma global_fill_rate_pooled:
  assumes "\<forall>m\<in>set (all_units inventory). 0 \<le> impressions m"
  shows "global_fill_rate (global (aggregate inventory)) =
     global_fill_rate (normalise_global (pool (all_units inventory)))"
proof -
  let ?t = "foldl add_entry zero_totals (map snd (byFormat (aggregate inventory)))"
  have i: "t_imps ?t = t_imps (pool (all_units inventory))"
    using totalImps_aggregate [of inventory]
    by (simp add: totalImps_totals pool_def)
  have "sumFillImps ?t =
      sumFillImps (pool (bucket Banner inventory)) + sumFillImps (pool (bucket Interstitial inventory))
    + sumFillImps (pool (bucket Rewarded inventory)) + sumFillImps (pool (bucket Native inventory))"
    unfolding aggregate_totals
    by (simp add: add_entry_def zero_totals_def entry_fill_weight [OF assms])
  then have s: "sumFillImps ?t = sumFillImps (pool (all_units inventory))"
    by (simp add: pool_def bucket_def
        sum_list_by_format [of "\<lambda>m. unit_fill_rate m * impressions m" "all_units inventory"])
  show ?thesis
    by (simp add: global_aggregate normalise_global_def i s)
qed

section \<open>Sorting\<close>

lemma compare_sections_le: "compare_sections a b \<le> 0 \<longleftrightarrow> ranked_before a b"
  by (auto simp add: compare_sections_def ranked_before_def)

lemma ranked_before_total: "\<not> ranked_before a b \<Longrightarrow> ranked_before b a"
  by (auto simp add: ranked_before_def)

lemma ranked_before_trans: "ranked_before a b \<Longrightarrow> ranked_before b c \<Longrightarrow> ranked_before a c"
  by (auto simp add: ranked_before_def)

lemma set_insert_sorted: "set (insert_sorted cmp x ys) = insert x (set ys)"
  by (induction ys) auto

lemma mset_insert_sorted: "mset (insert_sorted cmp x ys) = add_mset x (mset ys)"
  by (induction ys) auto

lemma mset_array_sort: "mset (array_sort cmp xs) = mset xs"
  by (induction xs) (simp_all add: array_sort_def mset_insert_sorted)

lemma set_array_sort: "set (array_sort cmp xs) = set xs"
  using mset_array_sort [of cmp xs] by (metis set_mset_mset)

lemma length_array_sort: "length (array_sort cmp xs) = length xs"
  using mset_array_sort [of cmp xs] by (metis size_mset)

lemma sorted_insert_sorted:
  "sorted_wrt ranked_before ys \<Longrightarrow> sorted_wrt ranked_before (insert_sorted compare_sections x ys)"
proof (induction ys)
  case Nil
  show ?case by simp
next
  case (Cons y ys)
  show ?case
  proof (cases "compare_sections x y \<le> 0")
    case True
    then have "ranked_before x y"
      by (simp add: compare_sections_le)
    then have "\<forall>z\<in>set (y # ys). ranked_before x z"
      using Cons.prems ranked_before_trans by auto
    then show ?thesis
      using True Cons.prems by simp
  next
    case False
    then have "ranked_before y x"
      using ranked_before_total by (simp add: compare_sections_le)
    then show ?thesis
      using False Cons by (auto simp add: set_insert_sorted)
  qed
qed

lemma sorted_array_sort: "sorted_wrt ranked_before (array_sort compare_sections xs)"
proof (induction xs)
  case Nil
  show ?case by (simp add: array_sort_def)
next
  case (Cons x xs)
  then show ?case
    using sorted_insert_sorted [of "array_sort compare_sections xs" x]
    by (simp add: array_sort_def)
qed

lemma insert_sorted_front:
  "\<forall>y\<in>set ys. ranked_before x y \<Longrightarrow> insert_sorted compare_sections x ys = x # ys"
  by (cases ys) (simp_all add: compare_sections_le)

lemma array_sort_sorted:
  "sorted_wrt ranked_before xs \<Longrightarrow> array_sort compare_sections xs = xs"
proof (induction xs)
  case Nil
  show ?case by (simp add: array_sort_def)
next
  case (Cons x xs)
  then have "array_sort compare_sections xs = xs" and "\<forall>y\<in>set xs. ranked_before x y"
    by simp_all
  then show ?case
    using insert_sorted_front [of xs x] by (simp add: array_sort_def)
qed

lemma array_sort_twice:
  "array_sort compare_sections (array_sort compare_sections xs) = array_sort compare_sections xs"
  by (rule array_sort_sorted) (rule sorted_array_sort)

section \<open>The handler on a well-formed request\<close>

lemma tactics_Some: "\<exists>secs. tactics rt inventory (Some c) agg = Inr secs"
  by (simp add: tactics_def)

lemma POST_valid:
  assumes "req_account_name body = Some name" and "name \<noteq> []"
    and "req_inventory body = Some inventory" and "inventory \<noteq> []"
    and "tactics rt inventory (req_constraints body) (aggregate inventory) = Inr secs"
  shows "POST rt body =
     Http200 \<lparr>account_name = name,
       summary = join newline
         (summary_head rt name (aggregate inventory)
          @ map (\<lambda>(i, s). priority_line i s) (enumerate 0 (array_sort compare_sections secs))
          @ ['''']),
       sections = array_sort compare_sections secs,
       constraints = req_constraints body\<rparr>"
  using assms by (simp add: POST_def composeSummary_def Let_def array_sort_twice)

lemma POST_Http200:
  assumes "POST rt body = Http200 r"
  shows "\<exists>name inventory secs.
     req_account_name body = Some name \<and> name \<noteq> [] \<and>
     req_inventory body = Some inventory \<and> inventory \<noteq> [] \<and>
     tactics rt inventory (req_constraints body) (aggregate inventory) = Inr secs"
  using assms
  by (auto simp add: POST_def Let_def split: option.splits if_splits sum.splits prod.splits)

lemma section_ids [simp]:
  "sec_id (enable_bidding rt c) = ''enable_bidding''"
  "sec_id geo_floors = ''geo_floors''"
  "sec_id segment_units = ''segment_units''"
  "sec_id (latency_opt rt c) = ''latency_opt''"
  "sec_id policy_health = ''policy_health''"
  "sec_id banner_refresh = ''banner_refresh''"
  "sec_id rewarded_caps = ''rewarded_caps''"
  by (simp_all add: enable_bidding_def geo_floors_def segment_units_def latency_opt_def
      policy_health_def banner_refresh_def rewarded_caps_def)

lemma section_scores [simp]:
  "impact_score (enable_bidding rt c) = 5"
  "effort_score (enable_bidding rt c) = (if developer_capacity c = Low then 4 else 3)"
  "impact_score geo_floors = 4" "effort_score geo_floors = 2"
  "impact_score segment_units = 4" "effort_score segment_units = 3"
  "impact_score (latency_opt rt c) = 3" "effort_score (latency_opt rt c) = 2"
  "impact_score policy_health = 3" "effort_score policy_health = 2"
  "impact_score banner_refresh = 3" "effort_score banner_refresh = 1"
  "impact_score rewarded_caps = 3" "effort_score rewarded_caps = 2"
  by (simp_all add: enable_bidding_def geo_floors_def segment_units_def latency_opt_def
      policy_health_def banner_refresh_def rewarded_caps_def)

lemma section_titles [simp]:
  "title (enable_bidding rt c) = ''Enable AdMob Bidding for High-Volume Partners''"
  "title geo_floors = ''Introduce Dynamic eCPM Floors by Geo and Format''"
  "title segment_units = ''Segment Ad Units by User Value and Session Depth''"
  "title (latency_opt rt c) = ''Optimize Latency and SDK Load''"
  "title policy_health = ''Policy and Inventory Health Actions''"
  "title banner_refresh = ''Tune Banner Refresh and Viewability''"
  "title rewarded_caps = ''Apply Rewarded Frequency Caps and Placement Strategy''"
  by (simp_all add: enable_bidding_def geo_floors_def segment_units_def latency_opt_def
      policy_health_def banner_refresh_def rewarded_caps_def)

lemma aggregate_init_inventory:
  "aggregate init_inventory =
     \<lparr>byFormat =
        [(Banner, \<lparr>avg_ecpm = 11 / 10, fill_rate = 19 / 20, latency_ms = 900, imps = 1200000,
                   revenue = 1320, avg_ecpm_gap = - (1 / 12), fill_rate_gap = 0\<rparr>),
         (Interstitial, \<lparr>avg_ecpm = 11 / 2, fill_rate = 23 / 25, latency_ms = 1100, imps = 300000,
                   revenue = 1650, avg_ecpm_gap = - (7 / 62), fill_rate_gap = 1 / 50\<rparr>),
         (Rewarded, \<lparr>avg_ecpm = 41 / 5, fill_rate = 43 / 50, latency_ms = 1300, imps = 240000,
                   revenue = 1968, avg_ecpm_gap = - (13 / 95), fill_rate_gap = 1 / 25\<rparr>),
         (Native, \<lparr>avg_ecpm = 0, fill_rate = 0, latency_ms = 0, imps = 0,
                   revenue = 0, avg_ecpm_gap = - 1, fill_rate_gap = - (23 / 25)\<rparr>)],
      global = \<lparr>global_avg_ecpm = 823 / 290, global_fill_rate = 676 / 725,
                 global_latency_ms = 990\<rparr>\<rparr>"
  by (simp add: init_inventory_def aggregate_eval)

lemma tactics_tight_request:
  "tactics rt init_inventory (Some (init_constraints\<lparr>latency_budget_ms := 900\<rparr>))
     (aggregate init_inventory) =
   Inr [enable_bidding rt (init_constraints\<lparr>latency_budget_ms := 900\<rparr>), geo_floors,
        segment_units, latency_opt rt (init_constraints\<lparr>latency_budget_ms := 900\<rparr>),
        banner_refresh, rewarded_caps]"
  unfolding aggregate_init_inventory
  by (simp add: tactics_def biddingNeeded_def floorsNeeded_def totalImps_def
      hasSingleRewardedUnit_def latencyHigh_def hasPolicyFlags_def bannerWeak_def
      rewardedVolumeHigh_def entry_of_def init_inventory_def init_constraints_def)

lemma sort_tight:
  "array_sort compare_sections
     [enable_bidding rt (init_constraints\<lparr>latency_budget_ms := 900\<rparr>), geo_floors, segment_units,
      latency_opt rt (init_constraints\<lparr>latency_budget_ms := 900\<rparr>), banner_refresh, rewarded_caps] =
     [enable_bidding rt (init_constraints\<lparr>latency_budget_ms := 900\<rparr>), geo_floors, segment_units,
      banner_refresh, latency_opt rt (init_constraints\<lparr>latency_budget_ms := 900\<rparr>), rewarded_caps]"
  by (simp add: array_sort_def compare_sections_def)

lemma tight_valid:
  "req_account_name tight_request = Some ''Demo Publisher Inc''"
  "''Demo Publisher Inc'' \<noteq> []"
  "req_inventory tight_request = Some init_inventory"
  "init_inventory \<noteq> []"
  "req_constraints tight_request = Some (init_constraints\<lparr>latency_budget_ms := 900\<rparr>)"
  by (simp_all add: tight_request_def initRequest_def init_inventory_def)

section \<open>Which rules fire\<close>

lemma tactics_sections:
  "tactics rt inventory (Some c) agg = Inr secs \<Longrightarrow>
   secs = (if biddingNeeded agg then [enable_bidding rt c] else [])
        @ (if floorsNeeded agg then [geo_floors] else [])
        @ (if totalImps agg > 200000 \<and> hasSingleRewardedUnit inventory then [segment_units] else [])
        @ (if latencyHigh c agg then [latency_opt rt c] else [])
        @ (if hasPolicyFlags inventory then [policy_health] else [])
        @ (if bannerWeak agg then [banner_refresh] else [])
        @ (if rewardedVolumeHigh agg then [rewarded_caps] else [])"
  by (simp add: tactics_def)

lemma fires_append: "fires rule (xs @ ys) \<longleftrightarrow> fires rule xs \<or> fires rule ys"
  by (simp add: fires_def)

lemma fires_if: "fires rule (if b then [s] else []) \<longleftrightarrow> b \<and> sec_id s = rule"
  by (simp add: fires_def)

lemma fires_tactics:
  assumes "tactics rt inventory (Some c) agg = Inr secs"
  shows "fires ''enable_bidding'' secs \<longleftrightarrow> biddingNeeded agg"
    and "fires ''geo_floors'' secs \<longleftrightarrow> floorsNeeded agg"
    and "fires ''segment_units'' secs \<longleftrightarrow> totalImps agg > 200000 \<and> hasSingleRewardedUnit inventory"
  unfolding tactics_sections [OF assms] fires_append fires_if section_ids
  by simp_all

lemma emitted_tactics:
  assumes "tactics rt inventory (Some c) agg = Inr secs"
  shows "\<forall>s\<in>set secs. sec_id s = ''enable_bidding'' \<longrightarrow> s = enable_bidding rt c"
    and "\<forall>s\<in>set secs. sec_id s = ''geo_floors'' \<longrightarrow> s = geo_floors"
    and "\<forall>s\<in>set secs. sec_id s = ''segment_units'' \<longrightarrow> s = segment_units"
  unfolding tactics_sections [OF assms]
  by (auto split: if_splits)

lemma scores_tactics:
  assumes "tactics rt inventory (Some c) agg = Inr secs"
  shows "\<forall>s\<in>set secs. sec_id s = ''enable_bidding'' \<longrightarrow>
           impact_score s = 5 \<and> effort_score s = (if developer_capacity c = Low then 4 else 3)"
    and "\<forall>s\<in>set secs. sec_id s = ''geo_floors'' \<longrightarrow> impact_score s = 4 \<and> effort_score s = 2"
    and "\<forall>s\<in>set secs. sec_id s = ''segment_units'' \<longrightarrow> impact_score s = 4 \<and> effort_score s = 3"
  unfolding tactics_sections [OF assms]
  by (auto split: if_splits)

lemma fires_set: "set xs = set ys \<Longrightarrow> fires rule xs = fires rule ys"
  by (simp add: fires_def list_ex_iff)

lemma POST_tactics:
  assumes "POST rt body = Http200 r" and "req_inventory body = Some inventory"
  shows "\<exists>c secs. req_constraints body = Some c \<and>
           tactics rt inventory (Some c) (aggregate inventory) = Inr secs \<and>
           set (sections r) = set secs"
proof -
  from POST_Http200 [OF assms(1)] assms(2) obtain name secs where
    v: "req_account_name body = Some name" "name \<noteq> []"
       "req_inventory body = Some inventory" "inventory \<noteq> []"
       "tactics rt inventory (req_constraints body) (aggregate inventory) = Inr secs"
    by auto
  from v(5) obtain c where c: "req_constraints body = Some c"
    by (cases "req_constraints body") (simp_all add: tactics_def)
  from POST_valid [OF v] assms(1) have "sections r = array_sort compare_sections secs"
    by auto
  then have "set (sections r) = set secs"
    by (simp add: set_array_sort)
  with c v(5) show ?thesis
    by auto
qed

lemma POST_ok:
  assumes "req_account_name body = Some name" and "name \<noteq> []"
    and "req_inventory body = Some inventory" and "inventory \<noteq> []"
    and "req_constraints body = Some c"
  shows "\<exists>r. POST rt body = Http200 r"
proof -
  obtain secs where "tactics rt inventory (req_constraints body) (aggregate inventory) = Inr secs"
    using tactics_Some [of rt inventory c] assms(5) by auto
  from POST_valid [OF assms(1-4) this] show ?thesis
    by blast
qed

lemma foldl_imps_sum:
  "foldl (\<lambda>s f. s + imps f) a xs = a + sum_list (map imps xs)"
  by (induction xs arbitrary: a) simp_all

lemma totalImps_sum: "totalImps agg = sum_list (map (\<lambda>p. imps (snd p)) (byFormat agg))"
  by (simp add: totalImps_def foldl_imps_sum comp_def)

lemma hasSingleRewardedUnit_iff:
  "hasSingleRewardedUnit inventory \<longleftrightarrow>
     (\<exists>inv\<in>set inventory. length (filter (\<lambda>m. format m = Rewarded) (metrics inv)) \<le> 1)"
  by (simp add: hasSingleRewardedUnit_def list_ex_iff)

lemma init_valid:
  "req_account_name initRequest = Some ''Demo Publisher Inc''"
  "''Demo Publisher Inc'' \<noteq> []"
  "req_inventory initRequest = Some init_inventory"
  "init_inventory \<noteq> []"
  "req_constraints initRequest = Some init_constraints"
  by (simp_all add: initRequest_def init_inventory_def)

lemma init_entries:
  "entry_of (aggregate init_inventory) Rewarded =
     Some \<lparr>avg_ecpm = 41 / 5, fill_rate = 43 / 50, latency_ms = 1300, imps = 240000,
            revenue = 1968, avg_ecpm_gap = - (13 / 95), fill_rate_gap = 1 / 25\<rparr>"
  "entry_of (aggregate init_inventory) Interstitial =
     Some \<lparr>avg_ecpm = 11 / 2, fill_rate = 23 / 25, latency_ms = 1100, imps = 300000,
            revenue = 1650, avg_ecpm_gap = - (7 / 62), fill_rate_gap = 1 / 50\<rparr>"
  "global (aggregate init_inventory) =
     \<lparr>global_avg_ecpm = 823 / 290, global_fill_rate = 676 / 725, global_latency_ms = 990\<rparr>"
  by (simp_all add: aggregate_init_inventory entry_of_def)

lemma boundary_valid:
  "req_account_name (boundary_request n) = Some ''Demo Publisher Inc''"
  "''Demo Publisher Inc'' \<noteq> []"
  "req_inventory (boundary_request n) = Some (boundary_inventory n)"
  "boundary_inventory n \<noteq> []"
  "req_constraints (boundary_request n) = Some init_constraints"
  by (simp_all add: boundary_request_def boundary_inventory_def)

lemma boundary_total:
  "sum_list (map impressions (all_units (boundary_inventory n))) = n"
  "\<exists>inv\<in>set (boundary_inventory n).
      length (filter (\<lambda>m. format m = Rewarded) (metrics inv)) \<le> 1"
  by (simp_all add: boundary_inventory_def all_units_def)

lemma idle_not_bidding: "\<not> biddingNeeded (aggregate idle_inventory)"
  by (simp add: biddingNeeded_def idle_inventory_def aggregate_eval)

section \<open>Requests the handler turns down\<close>

lemma POST_invalid:
  assumes "req_account_name body = None \<or> req_account_name body = Some [] \<or>
           req_inventory body = None \<or> req_inventory body = Some []"
  shows "POST rt body = Http400 ''Missing account_name or inventory''"
  using assms by (auto simp add: POST_def split: option.splits)

lemma POST_no_constraints:
  assumes "req_account_name body = Some name" and "name \<noteq> []"
    and "req_inventory body = Some inventory" and "inventory \<noteq> []"
    and "req_constraints body = None"
  shows "POST rt body =
           Http500 (error_message (TypeError
             (if biddingNeeded (aggregate inventory) then ''developer_capacity''
              else ''latency_budget_ms'')))"
  using assms by (simp add: POST_def tactics_def Let_def)

section \<open>The clock and the plan\<close>

lemma same_but_token_refl: "same_but_token t1 t2 s s"
  by (simp add: same_but_token_def)

lemma enable_bidding_markdown:
  "markdown (enable_bidding rt c) =
     join newline
       [''- Upgrade Google Mobile Ads SDK to version '' @ sdkTarget @ '' for Android/iOS.'',
        ''- In AdMob <U+2192> Mediation <U+2192> Ad sources, enable bidding for ''
          @ join '', '' biddingPartners @ ''.'',
        ''- Migrate top waterfall instances to bidding; keep a Tier-3 fallback waterfall.'',
        ''- Set up Firebase Remote Config experiment: `bidding_migration_'']
     @ toString36 (date_now rt)
     @ (''`.'' @ newline
        @ join newline
            ['''',
             ''**Metrics to monitor:**'',
             ''- Target eCPM uplift: +15<U+2013>25%'',
             ''- Latency: keep below '' @ number_toString rt (latency_budget_ms c) @ '' ms''])"
  by (simp add: enable_bidding_def)

lemma enable_bidding_same:
  assumes "number_toString rt1 = number_toString rt2"
  shows "same_but_token (toString36 (date_now rt1)) (toString36 (date_now rt2))
           (enable_bidding rt1 c) (enable_bidding rt2 c)"
proof -
  have "\<exists>pre post. markdown (enable_bidding rt1 c) = pre @ toString36 (date_now rt1) @ post \<and>
                   markdown (enable_bidding rt2 c) = pre @ toString36 (date_now rt2) @ post"
    unfolding enable_bidding_markdown assms by blast
  then show ?thesis
    by (simp add: same_but_token_def)
qed

lemma latency_opt_same:
  "number_toString rt1 = number_toString rt2 \<Longrightarrow> latency_opt rt1 c = latency_opt rt2 c"
  by (simp add: latency_opt_def)

lemma list_all2_if:
  "(b \<Longrightarrow> R x y) \<Longrightarrow> list_all2 R (if b then [x] else []) (if b then [y] else [])"
  by simp

lemma tactics_same:
  assumes "number_toString rt1 = number_toString rt2"
    and "tactics rt1 inventory (Some c) agg = Inr secs1"
    and "tactics rt2 inventory (Some c) agg = Inr secs2"
  shows "list_all2 (same_but_token (toString36 (date_now rt1)) (toString36 (date_now rt2)))
           secs1 secs2"
  unfolding tactics_sections [OF assms(2)] tactics_sections [OF assms(3)]
    latency_opt_same [OF assms(1)]
  by (intro list_all2_appendI list_all2_if enable_bidding_same [OF assms(1)] same_but_token_refl)

lemma compare_sections_same:
  "same_but_token t1 t2 a a' \<Longrightarrow> same_but_token t1 t2 b b' \<Longrightarrow>
     compare_sections a b = compare_sections a' b'"
  by (simp add: same_but_token_def compare_sections_def)

lemma insert_sorted_same:
  assumes "list_all2 (same_but_token t1 t2) xs ys" and "same_but_token t1 t2 x y"
  shows "list_all2 (same_but_token t1 t2)
           (insert_sorted compare_sections x xs) (insert_sorted compare_sections y ys)"
  using assms
proof (induction xs ys rule: list_all2_induct)
  case Nil
  then show ?case by simp
next
  case (Cons a xs b ys)
  then show ?case
    using compare_sections_same [of t1 t2 x y a b] by simp
qed

lemma array_sort_same:
  assumes "list_all2 (same_but_token t1 t2) xs ys"
  shows "list_all2 (same_but_token t1 t2)
           (array_sort compare_sections xs) (array_sort compare_sections ys)"
  using assms
proof (induction xs ys rule: list_all2_induct)
  case Nil
  show ?case by (simp add: array_sort_def)
next
  case (Cons a xs b ys)
  then show ?case
    using insert_sorted_same [of t1 t2 "array_sort compare_sections xs"
        "array_sort compare_sections ys" a b]
    by (simp add: array_sort_def)
qed

lemma priority_lines_same:
  assumes "list_all2 (same_but_token t1 t2) xs ys"
  shows "map (\<lambda>(i, s). priority_line i s) (enumerate n xs) =
         map (\<lambda>(i, s). priority_line i s) (enumerate n ys)"
  using assms
proof (induction xs ys arbitrary: n rule: list_all2_induct)
  case Nil
  show ?case by simp
next
  case (Cons a xs b ys)
  then show ?case
    by (simp add: priority_line_def same_but_token_def)
qed

lemma summary_head_same:
  "number_toString rt1 = number_toString rt2 \<Longrightarrow> number_toFixed2 rt1 = number_toFixed2 rt2 \<Longrightarrow>
     summary_head rt1 name agg = summary_head rt2 name agg"
  by (simp add: summary_head_def format_line_def fmt_def Let_def)

section \<open>Per-format rates and gaps\<close>

text \<open>
  Claim C3. For a format whose units have a positive total of impressions, the entry of
  the aggregate has average eCPM = total revenue times 1000 over total impressions,
  fill rate = impression-weighted fill sum over total impressions, latency = the
  rounded impression-weighted latency sum over total impressions, eCPM gap =
  (observed - benchmark) / benchmark with 1 in place of a zero benchmark, and fill-rate
  gap = observed - benchmark.
\<close>

theorem format_aggregate_rates:
  assumes "0 < sum_list (map impressions (bucket f inventory))"
  shows "\<exists>e. entry_of (aggregate inventory) f = Some e \<and>
     avg_ecpm e = (sum_list (map unit_revenue (bucket f inventory)) * 1000)
                    / sum_list (map impressions (bucket f inventory)) \<and>
     fill_rate e = sum_list (map (\<lambda>m. unit_fill_rate m * impressions m) (bucket f inventory))
                    / sum_list (map impressions (bucket f inventory)) \<and>
     latency_ms e = of_int (round (sum_list (map (\<lambda>m. unit_latency_ms m * impressions m) (bucket f inventory))
                    / sum_list (map impressions (bucket f inventory)))) \<and>
     avg_ecpm_gap e = (avg_ecpm e - bm_avg_ecpm (benchmarks f))
        / (if bm_avg_ecpm (benchmarks f) = 0 then 1 else bm_avg_ecpm (benchmarks f)) \<and>
     fill_rate_gap e = fill_rate e - bm_fill_rate (benchmarks f)"
proof -
  obtain e where e: "entry_of (aggregate inventory) f = Some e"
    by (simp add: entry_of_aggregate)
  have pos: "0 < t_imps (pool (bucket f inventory))"
    using assms by (simp add: pool_def)
  show ?thesis
    using entry_fields [OF e] pos e
    by (simp add: pool_def Math_round_def round_def)
qed

theorem format_aggregate_rates_witness:
  "0 < sum_list (map impressions (bucket Rewarded init_inventory)) \<and>
   (\<exists>e. entry_of (aggregate init_inventory) Rewarded = Some e \<and>
        avg_ecpm e = 8.2 \<and> fill_rate e = 0.86 \<and> latency_ms e = 1300 \<and>
        avg_ecpm_gap e = - (13 / 95) \<and> fill_rate_gap e = 0.04)"
proof -
  have b: "bucket Rewarded init_inventory = [hd (metrics (hd init_inventory))]"
    by (simp add: bucket_def all_units_def init_inventory_def)
  have h: "0 < sum_list (map impressions (bucket Rewarded init_inventory))"
    by (simp add: b) (simp add: init_inventory_def)
  from format_aggregate_rates [OF h] obtain e where
    e: "entry_of (aggregate init_inventory) Rewarded = Some e"
      "avg_ecpm e = (sum_list (map unit_revenue (bucket Rewarded init_inventory)) * 1000)
                    / sum_list (map impressions (bucket Rewarded init_inventory))"
      "fill_rate e = sum_list (map (\<lambda>m. unit_fill_rate m * impressions m) (bucket Rewarded init_inventory))
                    / sum_list (map impressions (bucket Rewarded init_inventory))"
      "latency_ms e = of_int (round (sum_list (map (\<lambda>m. unit_latency_ms m * impressions m) (bucket Rewarded init_inventory))
                    / sum_list (map impressions (bucket Rewarded init_inventory))))"
      "avg_ecpm_gap e = (avg_ecpm e - bm_avg_ecpm (benchmarks Rewarded))
        / (if bm_avg_ecpm (benchmarks Rewarded) = 0 then 1 else bm_avg_ecpm (benchmarks Rewarded))"
      "fill_rate_gap e = fill_rate e - bm_fill_rate (benchmarks Rewarded)"
    by blast
  have 1: "avg_ecpm e = 8.2"
    using e(2) by (simp add: b) (simp add: init_inventory_def)
  have 2: "fill_rate e = 0.86"
    using e(3) by (simp add: b) (simp add: init_inventory_def)
  have 3: "latency_ms e = 1300"
    using e(4) by (simp add: b) (simp add: init_inventory_def)
  have 4: "avg_ecpm_gap e = - (13 / 95)"
    using e(5) by (simp add: 1)
  have 5: "fill_rate_gap e = 0.04"
    using e(6) by (simp add: 2)
  show ?thesis
    using h e(1) 1 2 3 4 5 by blast
qed

section \<open>The four buckets\<close>

text \<open>
  Claim C8, as the code has it. For every inventory the aggregate has an entry for each
  of banner, interstitial, rewarded and native, in that order, and no division of the
  computation has a zero divisor. An entry whose impressions are not positive has
  average eCPM, fill rate and latency 0; the entry of a format without units has
  impressions 0 and revenue 0 as well. The two gaps of such an entry are not 0: they are
  computed from the zero rates like any other, which gives an eCPM gap of -1 and a
  fill-rate gap of minus the benchmark fill rate. When the impressions of all formats
  sum to nothing positive, the three global figures are 0.
\<close>

theorem four_buckets_no_division_by_zero:
  "map fst (byFormat (aggregate inventory)) = [Banner, Interstitial, Rewarded, Native] \<and>
   aggregate_checked inventory = Some (aggregate inventory) \<and>
   (\<exists>e. entry_of (aggregate inventory) f = Some e \<and>
        (imps e \<le> 0 \<longrightarrow>
           avg_ecpm e = 0 \<and> fill_rate e = 0 \<and> latency_ms e = 0 \<and>
           avg_ecpm_gap e = - 1 \<and> fill_rate_gap e = - bm_fill_rate (benchmarks f)) \<and>
        (bucket f inventory = [] \<longrightarrow> imps e = 0 \<and> revenue e = 0)) \<and>
   (totalImps (aggregate inventory) \<le> 0 \<longrightarrow>
      global (aggregate inventory) =
        \<lparr>global_avg_ecpm = 0, global_fill_rate = 0, global_latency_ms = 0\<rparr>)"
proof -
  obtain e where e: "entry_of (aggregate inventory) f = Some e"
    by (simp add: entry_of_aggregate)
  note fields = entry_fields [OF e]
  have rates: "imps e \<le> 0 \<longrightarrow>
           avg_ecpm e = 0 \<and> fill_rate e = 0 \<and> latency_ms e = 0 \<and>
           avg_ecpm_gap e = - 1 \<and> fill_rate_gap e = - bm_fill_rate (benchmarks f)"
    using fields benchmark_gap_of_zero [of f] by simp
  have empty: "bucket f inventory = [] \<longrightarrow> imps e = 0 \<and> revenue e = 0"
    using fields by (simp add: pool_def)
  have glob: "totalImps (aggregate inventory) \<le> 0 \<longrightarrow>
      global (aggregate inventory) =
        \<lparr>global_avg_ecpm = 0, global_fill_rate = 0, global_latency_ms = 0\<rparr>"
    by (simp add: totalImps_totals global_aggregate normalise_global_def)
  show ?thesis
    using byFormat_keys aggregate_checked_total e rates empty glob by blast
qed

theorem four_buckets_no_division_by_zero_witness:
  "bucket Native idle_inventory = [] \<and> totalImps (aggregate idle_inventory) \<le> 0 \<and>
   map fst (byFormat (aggregate idle_inventory)) = [Banner, Interstitial, Rewarded, Native] \<and>
   aggregate_checked idle_inventory = Some (aggregate idle_inventory) \<and>
   (\<exists>e. entry_of (aggregate idle_inventory) Native = Some e \<and> imps e \<le> 0 \<and>
        avg_ecpm e = 0 \<and> fill_rate e = 0 \<and> latency_ms e = 0 \<and>
        avg_ecpm_gap e = - 1 \<and> fill_rate_gap e = - 0.92 \<and> imps e = 0 \<and> revenue e = 0) \<and>
   global (aggregate idle_inventory) =
        \<lparr>global_avg_ecpm = 0, global_fill_rate = 0, global_latency_ms = 0\<rparr>"
proof -
  have b: "bucket Native idle_inventory = []"
    by (simp add: bucket_def all_units_def idle_inventory_def)
  have t: "totalImps (aggregate idle_inventory) \<le> 0"
    by (simp add: totalImps_aggregate all_units_def idle_inventory_def)
  show ?thesis
    using four_buckets_no_division_by_zero [of idle_inventory Native] b t
    by auto
qed

text \<open>
  The claim as written (all-zero values for an absent format) fails on the gaps: the
  starting request has no native unit, and its native entry has eCPM gap -1 and
  fill-rate gap -0.92.
\<close>

theorem absent_format_gaps_counterexample:
  "bucket Native init_inventory = [] \<and>
   map_option avg_ecpm_gap (entry_of (aggregate init_inventory) Native) = Some (- 1) \<and>
   map_option fill_rate_gap (entry_of (aggregate init_inventory) Native) = Some (- 0.92)"
  by (simp add: entry_of_aggregate format_entry_def Let_def bucket_totals)
     (simp add: bucket_def all_units_def init_inventory_def pool_def)

section \<open>The global figures and the pool\<close>

text \<open>
  Claim C1. The global average eCPM, fill rate and latency should be those of all units
  taken as one pool. The eCPM is (\<open>global_avg_ecpm_pooled\<close>), and so is the fill rate
  when no impression count is negative (\<open>global_fill_rate_pooled\<close>). The latency is not:
  the global sum is rebuilt from each format's latency after that has been rounded. With
  banner units of 3 impressions at 900 ms and 2 at 901 ms and an interstitial unit of
  1 impression at 901 ms, the banner average 900.4 is rounded to 900, the code's global
  latency is round(5401 / 6) = 900, and the pool's is round(5403 / 6) = 901.
\<close>

theorem global_latency_rounds_twice:
  "global_latency_ms (global (aggregate rounding_inventory)) = 900 \<and>
   global_latency_ms (normalise_global (pool (all_units rounding_inventory))) = 901"
  by (simp add: rounding_inventory_def aggregate_eval pool_def all_units_def)

section \<open>The text of the summary\<close>

lemma join_lines: "join sep (xs @ [[]]) = concat (map (\<lambda>l. l @ sep) xs)"
proof (induction xs)
  case Nil
  show ?case by simp
next
  case (Cons x xs)
  then show ?case by (cases xs) simp_all
qed

lemma summary_head_tight:
  "summary_head example_runtime ''Demo Publisher Inc'' (aggregate init_inventory) =
     [''# Technical Monetization Plan <U+2014> Demo Publisher Inc'',
      '''',
      ''## Inventory Snapshot (Aggregated)'',
      ''- Global eCPM: 2.84'',
      ''- Global fill rate: 0.93'',
      ''- Global latency: 990 ms'',
      '''',
      ''### Per-format eCPM vs benchmark'',
      ''- rewarded: 8.20 (benchmark 9.50) <U+2014> gap -13.68%'',
      ''- interstitial: 5.50 (benchmark 6.20) <U+2014> gap -11.29%'',
      ''- banner: 1.10 (benchmark 1.20) <U+2014> gap -8.33%'',
      ''- native: 0.00 (benchmark 2.20) <U+2014> gap -100.00%'',
      '''',
      ''## Priority Summary'']"
  unfolding aggregate_init_inventory
  by (simp add: summary_head_def format_line_def fmt_def entry_of_def format_name_def
      example_runtime_def toFixed2_def show_int_def Let_def show_nat.simps digit36_def)

lemma numbered_lines_tight:
  "map (\<lambda>(i, s). show_nat (i + 1) @ ''. '' @ title s @ '' (Impact ''
          @ show_int (impact_score s) @ '' / Effort '' @ show_int (effort_score s) @ '')'')
     (enumerate 0
        [enable_bidding rt (init_constraints\<lparr>latency_budget_ms := 900\<rparr>), geo_floors, segment_units,
         banner_refresh, latency_opt rt (init_constraints\<lparr>latency_budget_ms := 900\<rparr>), rewarded_caps]) =
   [''1. Enable AdMob Bidding for High-Volume Partners (Impact 5 / Effort 3)'',
    ''2. Introduce Dynamic eCPM Floors by Geo and Format (Impact 4 / Effort 2)'',
    ''3. Segment Ad Units by User Value and Session Depth (Impact 4 / Effort 3)'',
    ''4. Tune Banner Refresh and Viewability (Impact 3 / Effort 1)'',
    ''5. Optimize Latency and SDK Load (Impact 3 / Effort 2)'',
    ''6. Apply Rewarded Frequency Caps and Placement Strategy (Impact 3 / Effort 2)'']"
  by (simp add: show_int_def show_nat.simps digit36_def init_constraints_def)

section \<open>The ranking of the sections\<close>

text \<open>
  Claim C2. Whenever the handler answers with a plan, its sections are sorted by
  descending impact score with ties broken by ascending effort score, and they are the
  sections the rules emitted. The summary document is its lines, each followed by a line
  feed: the head, then one line per section of the plan, in the plan's order, made of
  the section's position counted from 1, its title and its two scores. For the starting
  request with a latency budget of 900 ms the whole document is written out below.
\<close>

theorem sections_ranked:
  assumes "POST rt body = Http200 r"
  shows "sorted_wrt ranked_before (sections r) \<and>
     (\<exists>name inventory secs.
        req_account_name body = Some name \<and> req_inventory body = Some inventory \<and>
        tactics rt inventory (req_constraints body) (aggregate inventory) = Inr secs \<and>
        mset (sections r) = mset secs \<and>
        summary r = concat (map (\<lambda>l. l @ [CHR 0x0A])
          (summary_head rt name (aggregate inventory)
           @ map (\<lambda>(i, s). show_nat (i + 1) @ ''. '' @ title s @ '' (Impact ''
                    @ show_int (impact_score s) @ '' / Effort ''
                    @ show_int (effort_score s) @ '')'')
               (enumerate 0 (sections r)))))"
proof -
  from POST_Http200 [OF assms] obtain name inventory secs where
    v: "req_account_name body = Some name" "name \<noteq> []"
       "req_inventory body = Some inventory" "inventory \<noteq> []"
       "tactics rt inventory (req_constraints body) (aggregate inventory) = Inr secs"
    by blast
  from POST_valid [OF v] assms have
    r: "r = \<lparr>account_name = name,
       summary = join newline
         (summary_head rt name (aggregate inventory)
          @ map (\<lambda>(i, s). priority_line i s) (enumerate 0 (array_sort compare_sections secs))
          @ ['''']),
       sections = array_sort compare_sections secs,
       constraints = req_constraints body\<rparr>"
    by simp
  have s: "sorted_wrt ranked_before (sections r)"
    by (simp add: r sorted_array_sort)
  have m: "mset (sections r) = mset secs"
    by (simp add: r mset_array_sort)
  have l: "(\<lambda>(i, s). priority_line i s) =
     (\<lambda>(i, s). show_nat (i + 1) @ ''. '' @ title s @ '' (Impact ''
                    @ show_int (impact_score s) @ '' / Effort ''
                    @ show_int (effort_score s) @ '')'')"
    by (simp add: priority_line_def fun_eq_iff)
  have "summary r = join newline
          ((summary_head rt name (aggregate inventory)
            @ map (\<lambda>(i, s). priority_line i s) (enumerate 0 (sections r)))
           @ [[]])"
    by (simp add: r)
  then have t: "summary r = concat (map (\<lambda>l. l @ [CHR 0x0A])
          (summary_head rt name (aggregate inventory)
           @ map (\<lambda>(i, s). show_nat (i + 1) @ ''. '' @ title s @ '' (Impact ''
                    @ show_int (impact_score s) @ '' / Effort ''
                    @ show_int (effort_score s) @ '')'')
               (enumerate 0 (sections r))))"
    unfolding join_lines l newline_def .
  show ?thesis
    using s m t v(1) v(3) v(5) by blast
qed

theorem sections_ranked_witness:
  "\<exists>r. POST example_runtime tight_request = Http200 r \<and>
       sorted_wrt ranked_before (sections r) \<and>
       map (\<lambda>s. (sec_id s, impact_score s, effort_score s)) (sections r) =
         [(''enable_bidding'', 5, 3), (''geo_floors'', 4, 2), (''segment_units'', 4, 3),
          (''banner_refresh'', 3, 1), (''latency_opt'', 3, 2), (''rewarded_caps'', 3, 2)] \<and>
       summary r = concat (map (\<lambda>l. l @ [CHR 0x0A])
         [''# Technical Monetization Plan <U+2014> Demo Publisher Inc'',
          '''',
          ''## Inventory Snapshot (Aggregated)'',
          ''- Global eCPM: 2.84'',
          ''- Global fill rate: 0.93'',
          ''- Global latency: 990 ms'',
          '''',
          ''### Per-format eCPM vs benchmark'',
          ''- rewarded: 8.20 (benchmark 9.50) <U+2014> gap -13.68%'',
          ''- interstitial: 5.50 (benchmark 6.20) <U+2014> gap -11.29%'',
          ''- banner: 1.10 (benchmark 1.20) <U+2014> gap -8.33%'',
          ''- native: 0.00 (benchmark 2.20) <U+2014> gap -100.00%'',
          '''',
          ''## Priority Summary'',
          ''1. Enable AdMob Bidding for High-Volume Partners (Impact 5 / Effort 3)'',
          ''2. Introduce Dynamic eCPM Floors by Geo and Format (Impact 4 / Effort 2)'',
          ''3. Segment Ad Units by User Value and Session Depth (Impact 4 / Effort 3)'',
          ''4. Tune Banner Refresh and Viewability (Impact 3 / Effort 1)'',
          ''5. Optimize Latency and SDK Load (Impact 3 / Effort 2)'',
          ''6. Apply Rewarded Frequency Caps and Placement Strategy (Impact 3 / Effort 2)''])"
proof -
  let ?c = "init_constraints\<lparr>latency_budget_ms := 900\<rparr>"
  let ?secs = "[enable_bidding example_runtime ?c, geo_floors, segment_units,
                latency_opt example_runtime ?c, banner_refresh, rewarded_caps]"
  have t: "tactics example_runtime init_inventory (req_constraints tight_request)
         (aggregate init_inventory) = Inr ?secs"
    by (simp only: tight_valid tactics_tight_request)
  define r where "r = \<lparr>account_name = ''Demo Publisher Inc'',
       summary = join newline
         (summary_head example_runtime ''Demo Publisher Inc'' (aggregate init_inventory)
          @ map (\<lambda>(i, s). priority_line i s) (enumerate 0 (array_sort compare_sections ?secs))
          @ ['''']),
       sections = array_sort compare_sections ?secs,
       constraints = req_constraints tight_request\<rparr>"
  have p: "POST example_runtime tight_request = Http200 r"
    unfolding r_def by (rule POST_valid [OF tight_valid(1-4) t])
  have o: "sections r = [enable_bidding example_runtime ?c, geo_floors, segment_units,
                banner_refresh, latency_opt example_runtime ?c, rewarded_caps]"
    by (simp only: r_def PlanResponse.simps sort_tight)
  from sections_ranked [OF p] obtain name inventory where
    s: "sorted_wrt ranked_before (sections r)"
       "req_account_name tight_request = Some name"
       "req_inventory tight_request = Some inventory"
       "summary r = concat (map (\<lambda>l. l @ [CHR 0x0A])
          (summary_head example_runtime name (aggregate inventory)
           @ map (\<lambda>(i, s). show_nat (i + 1) @ ''. '' @ title s @ '' (Impact ''
                    @ show_int (impact_score s) @ '' / Effort ''
                    @ show_int (effort_score s) @ '')'')
               (enumerate 0 (sections r))))"
    by blast
  have n: "name = ''Demo Publisher Inc''" and i: "inventory = init_inventory"
    using s(2,3) by (simp_all add: tight_valid)
  have h: "summary r = concat (map (\<lambda>l. l @ [CHR 0x0A])
         [''# Technical Monetization Plan <U+2014> Demo Publisher Inc'',
          '''',
          ''## Inventory Snapshot (Aggregated)'',
          ''- Global eCPM: 2.84'',
          ''- Global fill rate: 0.93'',
          ''- Global latency: 990 ms'',
          '''',
          ''### Per-format eCPM vs benchmark'',
          ''- rewarded: 8.20 (benchmark 9.50) <U+2014> gap -13.68%'',
          ''- interstitial: 5.50 (benchmark 6.20) <U+2014> gap -11.29%'',
          ''- banner: 1.10 (benchmark 1.20) <U+2014> gap -8.33%'',
          ''- native: 0.00 (benchmark 2.20) <U+2014> gap -100.00%'',
          '''',
          ''## Priority Summary'',
          ''1. Enable AdMob Bidding for High-Volume Partners (Impact 5 / Effort 3)'',
          ''2. Introduce Dynamic eCPM Floors by Geo and Format (Impact 4 / Effort 2)'',
          ''3. Segment Ad Units by User Value and Session Depth (Impact 4 / Effort 3)'',
          ''4. Tune Banner Refresh and Viewability (Impact 3 / Effort 1)'',
          ''5. Optimize Latency and SDK Load (Impact 3 / Effort 2)'',
          ''6. Apply Rewarded Frequency Caps and Placement Strategy (Impact 3 / Effort 2)''])"
    using s(4) unfolding n i o summary_head_tight numbered_lines_tight by simp
  have c: "developer_capacity ?c = Medium"
    by (simp add: init_constraints_def)
  have m: "map (\<lambda>s. (sec_id s, impact_score s, effort_score s)) (sections r) =
         [(''enable_bidding'', 5, 3), (''geo_floors'', 4, 2), (''segment_units'', 4, 3),
          (''banner_refresh'', 3, 1), (''latency_opt'', 3, 2), (''rewarded_caps'', 3, 2)]"
    unfolding o by (simp add: c)
  show ?thesis
    using p s(1) m h by (intro exI [of _ r] conjI)
qed

section \<open>The three rules with the highest impact\<close>

text \<open>
  Claim C6. The enable_bidding rule fires if and only if the global fill rate is at
  least 0.85 and the rewarded eCPM gap or the interstitial eCPM gap is at most -0.10;
  its section has impact score 5, and effort score 4 if the developer capacity is low
  and 3 otherwise. The first half is about \<open>tactics\<close> on any aggregate, the second
  about the sections of any plan the handler returns.
\<close>

theorem enable_bidding_rule:
  "(tactics rt inventory (Some c) agg = Inr secs \<longrightarrow>
      (fires ''enable_bidding'' secs \<longleftrightarrow>
         0.85 \<le> global_fill_rate (global agg) \<and>
         ((case entry_of agg Rewarded of None \<Rightarrow> 0 | Some e \<Rightarrow> avg_ecpm_gap e) \<le> - 0.10 \<or>
          (case entry_of agg Interstitial of None \<Rightarrow> 0 | Some e \<Rightarrow> avg_ecpm_gap e) \<le> - 0.10)) \<and>
      (\<forall>s\<in>set secs. sec_id s = ''enable_bidding'' \<longrightarrow>
         impact_score s = 5 \<and> effort_score s = (if developer_capacity c = Low then 4 else 3)))
   \<and>
   (POST rt body = Http200 r \<longrightarrow> req_inventory body = Some inventory' \<longrightarrow>
      (\<exists>c' rw it. req_constraints body = Some c' \<and>
         entry_of (aggregate inventory') Rewarded = Some rw \<and>
         entry_of (aggregate inventory') Interstitial = Some it \<and>
         (fires ''enable_bidding'' (sections r) \<longleftrightarrow>
            0.85 \<le> global_fill_rate (global (aggregate inventory')) \<and>
            (avg_ecpm_gap rw \<le> - 0.10 \<or> avg_ecpm_gap it \<le> - 0.10)) \<and>
         (\<forall>s\<in>set (sections r). sec_id s = ''enable_bidding'' \<longrightarrow>
            impact_score s = 5 \<and> effort_score s = (if developer_capacity c' = Low then 4 else 3))))"
proof (intro conjI impI)
  assume t: "tactics rt inventory (Some c) agg = Inr secs"
  show "fires ''enable_bidding'' secs \<longleftrightarrow>
         0.85 \<le> global_fill_rate (global agg) \<and>
         ((case entry_of agg Rewarded of None \<Rightarrow> 0 | Some e \<Rightarrow> avg_ecpm_gap e) \<le> - 0.10 \<or>
          (case entry_of agg Interstitial of None \<Rightarrow> 0 | Some e \<Rightarrow> avg_ecpm_gap e) \<le> - 0.10)"
    using fires_tactics(1) [OF t] by (simp add: biddingNeeded_def)
  show "\<forall>s\<in>set secs. sec_id s = ''enable_bidding'' \<longrightarrow>
         impact_score s = 5 \<and> effort_score s = (if developer_capacity c = Low then 4 else 3)"
    by (rule scores_tactics(1) [OF t])
next
  assume p: "POST rt body = Http200 r" and i: "req_inventory body = Some inventory'"
  from POST_tactics [OF p i] obtain c' secs' where
    t: "req_constraints body = Some c'"
       "tactics rt inventory' (Some c') (aggregate inventory') = Inr secs'"
       "set (sections r) = set secs'"
    by blast
  obtain rw it where e: "entry_of (aggregate inventory') Rewarded = Some rw"
      "entry_of (aggregate inventory') Interstitial = Some it"
    by (simp add: entry_of_aggregate)
  have "fires ''enable_bidding'' (sections r) \<longleftrightarrow>
            0.85 \<le> global_fill_rate (global (aggregate inventory')) \<and>
            (avg_ecpm_gap rw \<le> - 0.10 \<or> avg_ecpm_gap it \<le> - 0.10)"
    using fires_tactics(1) [OF t(2)] fires_set [OF t(3)] e by (simp add: biddingNeeded_def)
  moreover have "\<forall>s\<in>set (sections r). sec_id s = ''enable_bidding'' \<longrightarrow>
            impact_score s = 5 \<and> effort_score s = (if developer_capacity c' = Low then 4 else 3)"
    using scores_tactics(1) [OF t(2)] t(3) by simp
  ultimately show "\<exists>c' rw it. req_constraints body = Some c' \<and>
         entry_of (aggregate inventory') Rewarded = Some rw \<and>
         entry_of (aggregate inventory') Interstitial = Some it \<and>
         (fires ''enable_bidding'' (sections r) \<longleftrightarrow>
            0.85 \<le> global_fill_rate (global (aggregate inventory')) \<and>
            (avg_ecpm_gap rw \<le> - 0.10 \<or> avg_ecpm_gap it \<le> - 0.10)) \<and>
         (\<forall>s\<in>set (sections r). sec_id s = ''enable_bidding'' \<longrightarrow>
            impact_score s = 5 \<and> effort_score s = (if developer_capacity c' = Low then 4 else 3))"
    using t(1) e by blast
qed

theorem enable_bidding_rule_witness:
  "(\<exists>r. POST example_runtime initRequest = Http200 r \<and>
        fires ''enable_bidding'' (sections r) \<and>
        (\<forall>s\<in>set (sections r). sec_id s = ''enable_bidding'' \<longrightarrow>
           impact_score s = 5 \<and> effort_score s = 3)) \<and>
   (\<exists>secs. tactics example_runtime init_inventory
             (Some (init_constraints\<lparr>developer_capacity := Low\<rparr>)) (aggregate init_inventory)
             = Inr secs \<and>
        fires ''enable_bidding'' secs \<and>
        (\<forall>s\<in>set secs. sec_id s = ''enable_bidding'' \<longrightarrow>
           impact_score s = 5 \<and> effort_score s = 4))"
proof
  from POST_ok [OF init_valid] obtain r where p: "POST example_runtime initRequest = Http200 r"
    by blast
  from enable_bidding_rule [where rt = example_runtime and body = initRequest and r = r
      and inventory' = init_inventory, THEN conjunct2, rule_format, OF p init_valid(3)]
  obtain c' rw it where
    w: "req_constraints initRequest = Some c'"
       "entry_of (aggregate init_inventory) Rewarded = Some rw"
       "entry_of (aggregate init_inventory) Interstitial = Some it"
       "fires ''enable_bidding'' (sections r) \<longleftrightarrow>
            0.85 \<le> global_fill_rate (global (aggregate init_inventory)) \<and>
            (avg_ecpm_gap rw \<le> - 0.10 \<or> avg_ecpm_gap it \<le> - 0.10)"
       "\<forall>s\<in>set (sections r). sec_id s = ''enable_bidding'' \<longrightarrow>
            impact_score s = 5 \<and> effort_score s = (if developer_capacity c' = Low then 4 else 3)"
    by blast
  have c: "developer_capacity c' = Medium"
    using w(1) by (auto simp add: init_valid(5) init_constraints_def)
  have f: "fires ''enable_bidding'' (sections r)"
    using w(2,3,4) by (auto simp add: init_entries)
  show "\<exists>r. POST example_runtime initRequest = Http200 r \<and>
        fires ''enable_bidding'' (sections r) \<and>
        (\<forall>s\<in>set (sections r). sec_id s = ''enable_bidding'' \<longrightarrow>
           impact_score s = 5 \<and> effort_score s = 3)"
    using p f w(5) c by (intro exI [of _ r]) simp
next
  let ?c = "init_constraints\<lparr>developer_capacity := Low\<rparr>"
  obtain secs where
    t: "tactics example_runtime init_inventory (Some ?c) (aggregate init_inventory) = Inr secs"
    using tactics_Some by blast
  from enable_bidding_rule [where rt = example_runtime and inventory = init_inventory and c = ?c
      and agg = "aggregate init_inventory" and secs = secs, THEN conjunct1, rule_format, OF t]
  have w: "fires ''enable_bidding'' secs \<longleftrightarrow>
         0.85 \<le> global_fill_rate (global (aggregate init_inventory)) \<and>
         ((case entry_of (aggregate init_inventory) Rewarded of None \<Rightarrow> 0 | Some e \<Rightarrow> avg_ecpm_gap e) \<le> - 0.10 \<or>
          (case entry_of (aggregate init_inventory) Interstitial of None \<Rightarrow> 0 | Some e \<Rightarrow> avg_ecpm_gap e) \<le> - 0.10)"
      "\<forall>s\<in>set secs. sec_id s = ''enable_bidding'' \<longrightarrow>
         impact_score s = 5 \<and> effort_score s = (if developer_capacity ?c = Low then 4 else 3)"
    by simp_all
  have f: "fires ''enable_bidding'' secs"
    using w(1) by (simp add: init_entries)
  show "\<exists>secs. tactics example_runtime init_inventory (Some ?c) (aggregate init_inventory)
             = Inr secs \<and>
        fires ''enable_bidding'' secs \<and>
        (\<forall>s\<in>set secs. sec_id s = ''enable_bidding'' \<longrightarrow>
           impact_score s = 5 \<and> effort_score s = 4)"
    using t f w(2) by (intro exI [of _ secs]) simp
qed

text \<open>
  Claim C4. The geo_floors rule fires, with impact 4 and effort 2, if and only if the
  global fill rate is at least 0.90 and the global average eCPM is at most 0.95 times
  the rewarded format's average eCPM, the global average eCPM standing in for the latter
  when the aggregate has no rewarded entry.
\<close>

theorem geo_floors_rule:
  "(tactics rt inventory (Some c) agg = Inr secs \<longrightarrow>
      (fires ''geo_floors'' secs \<longleftrightarrow>
         0.90 \<le> global_fill_rate (global agg) \<and>
         global_avg_ecpm (global agg) \<le>
           0.95 * (case entry_of agg Rewarded of None \<Rightarrow> global_avg_ecpm (global agg)
                   | Some e \<Rightarrow> avg_ecpm e)) \<and>
      (\<forall>s\<in>set secs. sec_id s = ''geo_floors'' \<longrightarrow> impact_score s = 4 \<and> effort_score s = 2))
   \<and>
   (POST rt body = Http200 r \<longrightarrow> req_inventory body = Some inventory' \<longrightarrow>
      (\<exists>rw. entry_of (aggregate inventory') Rewarded = Some rw \<and>
         (fires ''geo_floors'' (sections r) \<longleftrightarrow>
            0.90 \<le> global_fill_rate (global (aggregate inventory')) \<and>
            global_avg_ecpm (global (aggregate inventory')) \<le> 0.95 * avg_ecpm rw)) \<and>
      (\<forall>s\<in>set (sections r). sec_id s = ''geo_floors'' \<longrightarrow>
         impact_score s = 4 \<and> effort_score s = 2))"
proof (intro conjI impI)
  assume t: "tactics rt inventory (Some c) agg = Inr secs"
  show "fires ''geo_floors'' secs \<longleftrightarrow>
         0.90 \<le> global_fill_rate (global agg) \<and>
         global_avg_ecpm (global agg) \<le>
           0.95 * (case entry_of agg Rewarded of None \<Rightarrow> global_avg_ecpm (global agg)
                   | Some e \<Rightarrow> avg_ecpm e)"
    using fires_tactics(2) [OF t] by (simp add: floorsNeeded_def)
  show "\<forall>s\<in>set secs. sec_id s = ''geo_floors'' \<longrightarrow> impact_score s = 4 \<and> effort_score s = 2"
    by (rule scores_tactics(2) [OF t])
next
  assume p: "POST rt body = Http200 r" and i: "req_inventory body = Some inventory'"
  from POST_tactics [OF p i] obtain c' secs' where
    t: "req_constraints body = Some c'"
       "tactics rt inventory' (Some c') (aggregate inventory') = Inr secs'"
       "set (sections r) = set secs'"
    by blast
  obtain rw where e: "entry_of (aggregate inventory') Rewarded = Some rw"
    by (simp add: entry_of_aggregate)
  have "fires ''geo_floors'' (sections r) \<longleftrightarrow>
            0.90 \<le> global_fill_rate (global (aggregate inventory')) \<and>
            global_avg_ecpm (global (aggregate inventory')) \<le> 0.95 * avg_ecpm rw"
    using fires_tactics(2) [OF t(2)] fires_set [OF t(3)] e by (simp add: floorsNeeded_def)
  then show "\<exists>rw. entry_of (aggregate inventory') Rewarded = Some rw \<and>
         (fires ''geo_floors'' (sections r) \<longleftrightarrow>
            0.90 \<le> global_fill_rate (global (aggregate inventory')) \<and>
            global_avg_ecpm (global (aggregate inventory')) \<le> 0.95 * avg_ecpm rw)"
    using e by blast
  show "\<forall>s\<in>set (sections r). sec_id s = ''geo_floors'' \<longrightarrow>
         impact_score s = 4 \<and> effort_score s = 2"
    using scores_tactics(2) [OF t(2)] t(3) by simp
qed

theorem geo_floors_rule_witness:
  "(\<exists>r. POST example_runtime initRequest = Http200 r \<and>
        fires ''geo_floors'' (sections r) \<and>
        (\<forall>s\<in>set (sections r). sec_id s = ''geo_floors'' \<longrightarrow>
           impact_score s = 4 \<and> effort_score s = 2)) \<and>
   (\<exists>secs. tactics example_runtime init_inventory (Some init_constraints) bare_aggregate
             = Inr secs \<and>
        entry_of bare_aggregate Rewarded = None \<and>
        fires ''geo_floors'' secs \<and>
        (\<forall>s\<in>set secs. sec_id s = ''geo_floors'' \<longrightarrow>
           impact_score s = 4 \<and> effort_score s = 2))"
proof
  from POST_ok [OF init_valid] obtain r where p: "POST example_runtime initRequest = Http200 r"
    by blast
  note rule = geo_floors_rule [where rt = example_runtime and body = initRequest and r = r
      and inventory' = init_inventory, THEN conjunct2, rule_format, OF p init_valid(3)]
  from rule obtain rw where
    w: "entry_of (aggregate init_inventory) Rewarded = Some rw"
       "fires ''geo_floors'' (sections r) \<longleftrightarrow>
            0.90 \<le> global_fill_rate (global (aggregate init_inventory)) \<and>
            global_avg_ecpm (global (aggregate init_inventory)) \<le> 0.95 * avg_ecpm rw"
    by blast
  have f: "fires ''geo_floors'' (sections r)"
    using w by (auto simp add: init_entries)
  show "\<exists>r. POST example_runtime initRequest = Http200 r \<and>
        fires ''geo_floors'' (sections r) \<and>
        (\<forall>s\<in>set (sections r). sec_id s = ''geo_floors'' \<longrightarrow>
           impact_score s = 4 \<and> effort_score s = 2)"
    using p f rule by (intro exI [of _ r]) simp
next
  obtain secs where
    t: "tactics example_runtime init_inventory (Some init_constraints) bare_aggregate = Inr secs"
    using tactics_Some by blast
  note rule = geo_floors_rule [where rt = example_runtime and inventory = init_inventory
      and c = init_constraints and agg = bare_aggregate and secs = secs,
      THEN conjunct1, rule_format, OF t]
  have n: "entry_of bare_aggregate Rewarded = None"
    by (simp add: entry_of_def bare_aggregate_def)
  have f: "fires ''geo_floors'' secs"
    using rule by (simp add: n) (simp add: bare_aggregate_def)
  show "\<exists>secs. tactics example_runtime init_inventory (Some init_constraints) bare_aggregate
             = Inr secs \<and>
        entry_of bare_aggregate Rewarded = None \<and>
        fires ''geo_floors'' secs \<and>
        (\<forall>s\<in>set secs. sec_id s = ''geo_floors'' \<longrightarrow>
           impact_score s = 4 \<and> effort_score s = 2)"
    using t n f rule by (intro exI [of _ secs]) simp
qed

text \<open>
  Claim C5. The segment_units rule fires if and only if the impressions of the four
  formats sum to more than 200,000 and some inventory profile has at most one rewarded
  unit. For a plan the handler returns, that sum is the sum of the impressions of all ad
  units of the request. With a single rewarded unit, 200,001 impressions fire the rule
  and 200,000 do not.
\<close>

theorem segment_units_rule:
  "(tactics rt inventory (Some c) agg = Inr secs \<longrightarrow>
      (fires ''segment_units'' secs \<longleftrightarrow>
         sum_list (map (\<lambda>p. imps (snd p)) (byFormat agg)) > 200000 \<and>
         (\<exists>inv\<in>set inventory. length (filter (\<lambda>m. format m = Rewarded) (metrics inv)) \<le> 1)))
   \<and>
   (POST rt body = Http200 r \<longrightarrow> req_inventory body = Some inventory' \<longrightarrow>
      (fires ''segment_units'' (sections r) \<longleftrightarrow>
         sum_list (map impressions (all_units inventory')) > 200000 \<and>
         (\<exists>inv\<in>set inventory'. length (filter (\<lambda>m. format m = Rewarded) (metrics inv)) \<le> 1)))"
proof (intro conjI impI)
  assume t: "tactics rt inventory (Some c) agg = Inr secs"
  show "fires ''segment_units'' secs \<longleftrightarrow>
         sum_list (map (\<lambda>p. imps (snd p)) (byFormat agg)) > 200000 \<and>
         (\<exists>inv\<in>set inventory. length (filter (\<lambda>m. format m = Rewarded) (metrics inv)) \<le> 1)"
    using fires_tactics(3) [OF t] by (simp add: totalImps_sum hasSingleRewardedUnit_iff)
next
  assume p: "POST rt body = Http200 r" and i: "req_inventory body = Some inventory'"
  from POST_tactics [OF p i] obtain c' secs' where
    t: "req_constraints body = Some c'"
       "tactics rt inventory' (Some c') (aggregate inventory') = Inr secs'"
       "set (sections r) = set secs'"
    by blast
  show "fires ''segment_units'' (sections r) \<longleftrightarrow>
         sum_list (map impressions (all_units inventory')) > 200000 \<and>
         (\<exists>inv\<in>set inventory'. length (filter (\<lambda>m. format m = Rewarded) (metrics inv)) \<le> 1)"
    using fires_tactics(3) [OF t(2)] fires_set [OF t(3)]
    by (simp add: totalImps_aggregate hasSingleRewardedUnit_iff)
qed

theorem segment_units_rule_witness:
  "(\<exists>r. POST example_runtime (boundary_request 200001) = Http200 r \<and>
        fires ''segment_units'' (sections r)) \<and>
   (\<exists>r. POST example_runtime (boundary_request 200000) = Http200 r \<and>
        \<not> fires ''segment_units'' (sections r))"
proof
  from POST_ok [OF boundary_valid] obtain r where
    p: "POST example_runtime (boundary_request 200001) = Http200 r"
    by blast
  from segment_units_rule [where rt = example_runtime and body = "boundary_request 200001"
      and r = r, THEN conjunct2, rule_format, OF p boundary_valid(3)]
  have "fires ''segment_units'' (sections r)"
    using boundary_total(2) [of 200001] by (simp add: boundary_total(1))
  with p show "\<exists>r. POST example_runtime (boundary_request 200001) = Http200 r \<and>
        fires ''segment_units'' (sections r)"
    by blast
next
  from POST_ok [OF boundary_valid] obtain r where
    p: "POST example_runtime (boundary_request 200000) = Http200 r"
    by blast
  from segment_units_rule [where rt = example_runtime and body = "boundary_request 200000"
      and r = r, THEN conjunct2, rule_format, OF p boundary_valid(3)]
  have "\<not> fires ''segment_units'' (sections r)"
    by (simp add: boundary_total(1))
  with p show "\<exists>r. POST example_runtime (boundary_request 200000) = Http200 r \<and>
        \<not> fires ''segment_units'' (sections r)"
    by blast
qed

section \<open>Rejected requests\<close>

text \<open>
  Claim C7. A request whose account name is missing or empty, or whose inventory is
  missing or empty, is answered with status 400 and the fixed diagnostic, whatever the
  rest of the request and the runtime are: the answer depends on neither the aggregate
  nor the rules nor the summary.
\<close>

theorem invalid_request_rejected:
  assumes "req_account_name body = None \<or> req_account_name body = Some [] \<or>
           req_inventory body = None \<or> req_inventory body = Some []"
  shows "POST rt body = Http400 ''Missing account_name or inventory''"
  using assms by (rule POST_invalid)

theorem invalid_request_rejected_witness:
  "POST example_runtime (initRequest\<lparr>req_account_name := None\<rparr>)
     = Http400 ''Missing account_name or inventory'' \<and>
   POST example_runtime (initRequest\<lparr>req_account_name := Some [], req_constraints := None\<rparr>)
     = Http400 ''Missing account_name or inventory'' \<and>
   POST example_runtime (initRequest\<lparr>req_inventory := None\<rparr>)
     = Http400 ''Missing account_name or inventory'' \<and>
   POST example_runtime (initRequest\<lparr>req_inventory := Some []\<rparr>)
     = Http400 ''Missing account_name or inventory''"
  using invalid_request_rejected [of "initRequest\<lparr>req_account_name := None\<rparr>" example_runtime]
    invalid_request_rejected
      [of "initRequest\<lparr>req_account_name := Some [], req_constraints := None\<rparr>" example_runtime]
    invalid_request_rejected [of "initRequest\<lparr>req_inventory := None\<rparr>" example_runtime]
    invalid_request_rejected [of "initRequest\<lparr>req_inventory := Some []\<rparr>" example_runtime]
  by simp

text \<open>
  Claim C10. A request with a non-empty account name and a non-empty inventory but no
  constraints is not rejected with status 400: the read of a property of the missing
  constraints throws, and the handler answers with status 500 and the message of the
  error. The property is \<open>latency_budget_ms\<close> unless the first rule fires.
\<close>

theorem missing_constraints_server_error:
  assumes "req_account_name body = Some name" and "name \<noteq> []"
    and "req_inventory body = Some inventory" and "inventory \<noteq> []"
    and "req_constraints body = None"
  shows "POST rt body =
           Http500 (error_message (TypeError
             (if biddingNeeded (aggregate inventory) then ''developer_capacity''
              else ''latency_budget_ms''))) \<and>
         POST rt body \<noteq> Http400 ''Missing account_name or inventory''"
  using POST_no_constraints [OF assms] by simp

theorem missing_constraints_server_error_witness:
  "POST example_runtime
     \<lparr>req_account_name = Some ''Demo Publisher Inc'', req_inventory = Some idle_inventory,
      req_constraints = None\<rparr>
   = Http500 (error_message (TypeError ''latency_budget_ms''))"
  using missing_constraints_server_error
    [of "\<lparr>req_account_name = Some ''Demo Publisher Inc'', req_inventory = Some idle_inventory,
          req_constraints = None\<rparr>" "''Demo Publisher Inc''" idle_inventory example_runtime]
    idle_not_bidding
  by (simp add: idle_inventory_def)

section \<open>Determinism\<close>

text \<open>
  Claim C9. Two evaluations of the same request that differ only in the time read from
  the clock give the same status, and for a plan the same sections in the same order:
  same ids, titles, impact scores, effort scores and guidance bodies, except that the
  body of the enable_bidding section carries the base-36 token of the respective time at
  the same place. The summary is the same too.
\<close>

theorem plan_deterministic:
  "same_plan (toString36 n1) (toString36 n2)
     (POST (rt\<lparr>date_now := n1\<rparr>) body) (POST (rt\<lparr>date_now := n2\<rparr>) body)"
proof -
  let ?rt1 = "rt\<lparr>date_now := n1\<rparr>" and ?rt2 = "rt\<lparr>date_now := n2\<rparr>"
  consider
    (invalid) "req_account_name body = None \<or> req_account_name body = Some [] \<or>
               req_inventory body = None \<or> req_inventory body = Some []"
  | (unconstrained) name inventory where
      "req_account_name body = Some name" "name \<noteq> []"
      "req_inventory body = Some inventory" "inventory \<noteq> []"
      "req_constraints body = None"
  | (valid) name inventory c where
      "req_account_name body = Some name" "name \<noteq> []"
      "req_inventory body = Some inventory" "inventory \<noteq> []"
      "req_constraints body = Some c"
    by (cases "req_account_name body"; cases "req_inventory body"; cases "req_constraints body")
       auto
  then show ?thesis
  proof cases
    case invalid
    then show ?thesis
      by (simp add: POST_invalid)
  next
    case unconstrained
    then show ?thesis
      by (simp add: POST_no_constraints)
  next
    case valid
    obtain secs1 where
      t1: "tactics ?rt1 inventory (Some c) (aggregate inventory) = Inr secs1"
      using tactics_Some by blast
    obtain secs2 where
      t2: "tactics ?rt2 inventory (Some c) (aggregate inventory) = Inr secs2"
      using tactics_Some by blast
    have n: "number_toString ?rt1 = number_toString ?rt2"
      and x: "number_toFixed2 ?rt1 = number_toFixed2 ?rt2"
      by simp_all
    have "list_all2 (same_but_token (toString36 n1) (toString36 n2)) secs1 secs2"
      using tactics_same [OF n t1 t2] by simp
    then have s: "list_all2 (same_but_token (toString36 n1) (toString36 n2))
        (array_sort compare_sections secs1) (array_sort compare_sections secs2)"
      by (rule array_sort_same)
    have p1: "POST ?rt1 body =
       Http200 \<lparr>account_name = name,
         summary = join newline
           (summary_head ?rt1 name (aggregate inventory)
            @ map (\<lambda>(i, s). priority_line i s) (enumerate 0 (array_sort compare_sections secs1))
            @ ['''']),
         sections = array_sort compare_sections secs1,
         constraints = req_constraints body\<rparr>"
      using valid t1 by (intro POST_valid) simp_all
    have p2: "POST ?rt2 body =
       Http200 \<lparr>account_name = name,
         summary = join newline
           (summary_head ?rt2 name (aggregate inventory)
            @ map (\<lambda>(i, s). priority_line i s) (enumerate 0 (array_sort compare_sections secs2))
            @ ['''']),
         sections = array_sort compare_sections secs2,
         constraints = req_constraints body\<rparr>"
      using valid t2 by (intro POST_valid) simp_all
    show ?thesis
      unfolding p1 p2
      using s priority_lines_same [OF s, of 0] summary_head_same [OF n x]
      by simp
  qed
qed

theorem plan_deterministic_example:
  "\<exists>p q. POST (example_runtime\<lparr>date_now := 1700000000000\<rparr>) initRequest = Http200 p \<and>
         POST (example_runtime\<lparr>date_now := 1700000000001\<rparr>) initRequest = Http200 q \<and>
         summary p = summary q \<and>
         list_all2 (same_but_token (toString36 1700000000000) (toString36 1700000000001))
           (sections p) (sections q)"
proof -
  obtain p where p: "POST (example_runtime\<lparr>date_now := 1700000000000\<rparr>) initRequest = Http200 p"
    using POST_ok [OF init_valid] by blast
  obtain q where q: "POST (example_runtime\<lparr>date_now := 1700000000001\<rparr>) initRequest = Http200 q"
    using POST_ok [OF init_valid] by blast
  show ?thesis
    using plan_deterministic [of 1700000000000 1700000000001 example_runtime initRequest] p q
    by simp
qed

end
